theory Spec2Isabelle
  imports Main "HOL-Library.Char_ord" "HOL-Library.List_Lexorder"
begin

section \<open>Runtime values\<close>

text \<open>
  The evaluator of \<^verbatim>\<open>interpreter.ts\<close> computes with JavaScript values of type
  \<^verbatim>\<open>unknown\<close>. The embedding has numbers, strings, booleans, \<^verbatim>\<open>null\<close>, \<^verbatim>\<open>undefined\<close>,
  objects and functions.

  An object carries an identity, a number (used by \<^verbatim>\<open>===\<close>), its own properties and the
  properties that it inherits through its prototype chain, both as association lists
  of data properties; a lookup tries the own properties first. An object literal or a
  parsed JSON object inherits the members of \<^verbatim>\<open>Object.prototype\<close>, an array has its
  indices and \<^verbatim>\<open>length\<close> as own properties and inherits the members of
  \<^verbatim>\<open>Array.prototype\<close>. Accessor properties, proxies and symbol keys are not modelled.

  A function object is known by a name; what calling it does is the runtime's.

  Numbers are IEEE doubles. Their arithmetic is not part of this repository, so the
  number type is the type variable \<open>'n\<close> and the operations of the runtime on it are
  parameters.
\<close>

datatype 'n val =
    VNum 'n
  | VStr string
  | VBool bool
  | VNull
  | VUndef
  | VObj nat "(string \<times> 'n val) list" "(string \<times> 'n val) list"
  | VFun string

text \<open>\<^verbatim>\<open>typeof v === "number"\<close>\<close>

fun is_number :: "'n val \<Rightarrow> bool" where
  "is_number (VNum n) = True"
| "is_number v = False"

text \<open>The values that are objects, as opposed to primitive values.\<close>

fun is_object :: "'n val \<Rightarrow> bool" where
  "is_object (VObj r own inherited) = True"
| "is_object (VFun f) = True"
| "is_object v = False"

text \<open>
  \<^verbatim>\<open>Object.prototype\<close>, with the identity 0, and what an object whose prototype it is
  inherits from it. Its members are the functions below and the accessor
  \<^verbatim>\<open>__proto__\<close>, which gives the prototype of the object it is read on.
\<close>

definition objectFunctions :: "(string \<times> 'n val) list" where
  "objectFunctions =
     [(''constructor'', VFun ''Object''),
      (''__defineGetter__'', VFun ''Object.prototype.__defineGetter__''),
      (''__defineSetter__'', VFun ''Object.prototype.__defineSetter__''),
      (''hasOwnProperty'', VFun ''Object.prototype.hasOwnProperty''),
      (''__lookupGetter__'', VFun ''Object.prototype.__lookupGetter__''),
      (''__lookupSetter__'', VFun ''Object.prototype.__lookupSetter__''),
      (''isPrototypeOf'', VFun ''Object.prototype.isPrototypeOf''),
      (''propertyIsEnumerable'', VFun ''Object.prototype.propertyIsEnumerable''),
      (''toString'', VFun ''Object.prototype.toString''),
      (''valueOf'', VFun ''Object.prototype.valueOf''),
      (''toLocaleString'', VFun ''Object.prototype.toLocaleString'')]"

definition objectPrototype :: "'n val" where
  "objectPrototype = VObj 0 (objectFunctions @ [(''__proto__'', VNull)]) []"

definition objectMembers :: "(string \<times> 'n val) list" where
  "objectMembers = objectFunctions @ [(''__proto__'', objectPrototype)]"

section \<open>Errors and effects\<close>

text \<open>
  \<^verbatim>\<open>ExpressionError\<close> is the evaluator's own error class; it carries a message.
  \<open>TypeError\<close> is a \<^verbatim>\<open>TypeError\<close> that the runtime throws (its message is the
  engine's). A host function may throw anything: \<open>HostError x\<close> is a thrown value
  that is neither.

  A host function may also have effects (count its calls, say). They are modelled as a
  host state \<open>'h\<close> that only host code reads and writes; a computation takes the host
  state and returns its outcome with the new host state.
\<close>

datatype 'x error = ExpressionError string | TypeError | HostError 'x

type_synonym ('a, 'x, 'h) comp = "'h \<Rightarrow> ('x error + 'a) \<times> 'h"

type_synonym ('n, 'x, 'h) hostfn = "'n val list \<Rightarrow> ('n val, 'x, 'h) comp"

definition return :: "'a \<Rightarrow> ('a, 'x, 'h) comp" where
  "return v = (\<lambda>h. (Inr v, h))"

definition throw :: "'x error \<Rightarrow> ('a, 'x, 'h) comp" where
  "throw e = (\<lambda>h. (Inl e, h))"

definition bind :: "('a, 'x, 'h) comp \<Rightarrow> ('a \<Rightarrow> ('b, 'x, 'h) comp) \<Rightarrow> ('b, 'x, 'h) comp" where
  "bind m f = (\<lambda>h. case m h of (Inl e, h') \<Rightarrow> (Inl e, h') | (Inr v, h') \<Rightarrow> f v h')"

text \<open>
  The \<^verbatim>\<open>catch\<close> block of \<^verbatim>\<open>evaluateNode\<close>: an \<^verbatim>\<open>ExpressionError\<close> is thrown again
  as a new one with a prefixed message, any other error is thrown again as it is.
\<close>

fun rethrow :: "'x error \<Rightarrow> 'x error" where
  "rethrow (ExpressionError message) = ExpressionError (''Evaluation error: '' @ message)"
| "rethrow e = e"

definition tryCatch :: "('a, 'x, 'h) comp \<Rightarrow> ('a, 'x, 'h) comp" where
  "tryCatch m = (\<lambda>h. case m h of (Inl e, h') \<Rightarrow> (Inl (rethrow e), h') | (Inr v, h') \<Rightarrow> (Inr v, h'))"

section \<open>The runtime\<close>

text \<open>
  What the JavaScript runtime provides and this repository does not define:
  the arithmetic of numbers, the property lookup on a number, string or boolean
  (through its wrapper prototype) and on a function object, and the call of a function
  object with a receiver and arguments.
  \<open>num_less a b\<close> is the comparison \<^verbatim>\<open>a < b\<close> on numbers, \<open>None\<close> when one of
  them is NaN; \<open>num_falsy\<close> holds for \<^verbatim>\<open>0\<close>, \<^verbatim>\<open>-0\<close> and NaN.
\<close>

record ('n, 'x, 'h) primitives =
  num_add :: "'n \<Rightarrow> 'n \<Rightarrow> 'n"
  num_sub :: "'n \<Rightarrow> 'n \<Rightarrow> 'n"
  num_mul :: "'n \<Rightarrow> 'n \<Rightarrow> 'n"
  num_div :: "'n \<Rightarrow> 'n \<Rightarrow> 'n"
  num_mod :: "'n \<Rightarrow> 'n \<Rightarrow> 'n"
  num_neg :: "'n \<Rightarrow> 'n"
  num_less :: "'n \<Rightarrow> 'n \<Rightarrow> bool option"
  num_eq :: "'n \<Rightarrow> 'n \<Rightarrow> bool"
  num_falsy :: "'n \<Rightarrow> bool"
  num_to_string :: "'n \<Rightarrow> string"
  string_to_num :: "string \<Rightarrow> 'n"
  num_zero :: "'n"
  num_one :: "'n"
  num_nan :: "'n"
  prim_get :: "'n val \<Rightarrow> string \<Rightarrow> 'n val"
  fun_get :: "string \<Rightarrow> string \<Rightarrow> 'n val"
  call_function :: "string \<Rightarrow> 'n val \<Rightarrow> 'n val list \<Rightarrow> ('n val, 'x, 'h) comp"

text \<open>Truthiness, as tested by \<^verbatim>\<open>!v\<close>, \<^verbatim>\<open>v ? a : b\<close>, \<^verbatim>\<open>a && b\<close> and \<^verbatim>\<open>a || b\<close>.\<close>

fun truthy :: "('n, 'x, 'h) primitives \<Rightarrow> 'n val \<Rightarrow> bool" where
  "truthy P (VNum n) = (\<not> num_falsy P n)"
| "truthy P (VStr s) = (s \<noteq> [])"
| "truthy P (VBool b) = b"
| "truthy P VNull = False"
| "truthy P VUndef = False"
| "truthy P (VObj r own inherited) = True"
| "truthy P (VFun f) = True"

text \<open>
  \<^verbatim>\<open>object[key]\<close> for a string key, on a value that is neither \<^verbatim>\<open>null\<close> nor
  \<^verbatim>\<open>undefined\<close>: own properties first, then the prototype chain, else \<^verbatim>\<open>undefined\<close>.
\<close>

fun getMember :: "('n, 'x, 'h) primitives \<Rightarrow> 'n val \<Rightarrow> string \<Rightarrow> 'n val" where
  "getMember P (VObj r own inherited) key =
     (case map_of own key of
        Some v \<Rightarrow> v
      | None \<Rightarrow> (case map_of inherited key of Some v \<Rightarrow> v | None \<Rightarrow> VUndef))"
| "getMember P (VFun f) key = fun_get P f key"
| "getMember P v key = prim_get P v key"

text \<open>
  The conversion of an object to a primitive value. The methods named are tried in
  order: one that is a function is called on the object, and a result that is not an
  object is the answer. When no method gives one, the runtime throws a
  \<^verbatim>\<open>TypeError\<close>. The method that is called may be the host's: it can have effects
  and throw.
\<close>

fun tryMethods ::
  "('n, 'x, 'h) primitives \<Rightarrow> 'n val \<Rightarrow> string list \<Rightarrow> ('n val, 'x, 'h) comp" where
  "tryMethods P obj [] = throw TypeError"
| "tryMethods P obj (name # names) =
     (case getMember P obj name of
        VFun f \<Rightarrow>
          bind (call_function P f obj [])
            (\<lambda>result. if is_object result then tryMethods P obj names else return result)
      | _ \<Rightarrow> tryMethods P obj names)"

definition toPrimitive ::
  "('n, 'x, 'h) primitives \<Rightarrow> bool \<Rightarrow> 'n val \<Rightarrow> ('n val, 'x, 'h) comp" where
  "toPrimitive P preferString v =
     (if is_object v
      then tryMethods P v (if preferString then [''toString'', ''valueOf'']
                           else [''valueOf'', ''toString''])
      else return v)"

text \<open>
  The string and the number of a primitive value. The equations for objects are never
  used: \<open>toPrimitive\<close> returns a primitive value or throws.
\<close>

fun primitiveToString :: "('n, 'x, 'h) primitives \<Rightarrow> 'n val \<Rightarrow> string" where
  "primitiveToString P (VNum n) = num_to_string P n"
| "primitiveToString P (VStr s) = s"
| "primitiveToString P (VBool b) = (if b then ''true'' else ''false'')"
| "primitiveToString P VNull = ''null''"
| "primitiveToString P VUndef = ''undefined''"
| "primitiveToString P v = []"

fun primitiveToNumber :: "('n, 'x, 'h) primitives \<Rightarrow> 'n val \<Rightarrow> 'n" where
  "primitiveToNumber P (VNum n) = n"
| "primitiveToNumber P (VStr s) = string_to_num P s"
| "primitiveToNumber P (VBool b) = (if b then num_one P else num_zero P)"
| "primitiveToNumber P VNull = num_zero P"
| "primitiveToNumber P v = num_nan P"

text \<open>
  \<^verbatim>\<open>String(v)\<close>, also the conversion in a template literal and of a property key;
  and the conversion to a number that the arithmetic operators apply.
\<close>

definition toString :: "('n, 'x, 'h) primitives \<Rightarrow> 'n val \<Rightarrow> (string, 'x, 'h) comp" where
  "toString P v = bind (toPrimitive P True v) (\<lambda>p. return (primitiveToString P p))"

definition toNumber :: "('n, 'x, 'h) primitives \<Rightarrow> 'n val \<Rightarrow> ('n, 'x, 'h) comp" where
  "toNumber P v = bind (toPrimitive P False v) (\<lambda>p. return (primitiveToNumber P p))"

text \<open>\<^verbatim>\<open>a === b\<close>: no coercion; objects are equal when they are the same reference.\<close>

fun strictEquals :: "('n, 'x, 'h) primitives \<Rightarrow> 'n val \<Rightarrow> 'n val \<Rightarrow> bool" where
  "strictEquals P (VNum a) (VNum b) = num_eq P a b"
| "strictEquals P (VStr a) (VStr b) = (a = b)"
| "strictEquals P (VBool a) (VBool b) = (a = b)"
| "strictEquals P VNull VNull = True"
| "strictEquals P VUndef VUndef = True"
| "strictEquals P (VObj r own inherited) (VObj r' own' inherited') = (r = r')"
| "strictEquals P (VFun f) (VFun g) = (f = g)"
| "strictEquals P a b = False"

text \<open>
  \<^verbatim>\<open>a < b\<close> on two primitive values: two strings are compared as strings, anything
  else as numbers; \<open>None\<close> is the undefined outcome of a comparison with NaN.
  The relational operators first convert the left operand, then the right operand,
  to primitive values.
\<close>

definition lessThan_js :: "('n, 'x, 'h) primitives \<Rightarrow> 'n val \<Rightarrow> 'n val \<Rightarrow> bool option" where
  "lessThan_js P a b =
     (case (a, b) of
        (VStr s, VStr t) \<Rightarrow> Some (s < t)
      | (x, y) \<Rightarrow> num_less P (primitiveToNumber P x) (primitiveToNumber P y))"

definition relational ::
  "('n, 'x, 'h) primitives \<Rightarrow> ('n val \<Rightarrow> 'n val \<Rightarrow> bool) \<Rightarrow> 'n val \<Rightarrow> 'n val \<Rightarrow> ('n val, 'x, 'h) comp" where
  "relational P test left right =
     bind (toPrimitive P False left) (\<lambda>l.
       bind (toPrimitive P False right) (\<lambda>r. return (VBool (test l r))))"

definition arithmetic ::
  "('n, 'x, 'h) primitives \<Rightarrow> ('n \<Rightarrow> 'n \<Rightarrow> 'n) \<Rightarrow> 'n val \<Rightarrow> 'n val \<Rightarrow> ('n val, 'x, 'h) comp" where
  "arithmetic P op left right =
     bind (toNumber P left) (\<lambda>l.
       bind (toNumber P right) (\<lambda>r. return (VNum (op l r))))"

text \<open>
  \<^verbatim>\<open>object[property]\<close> on a value that is neither \<^verbatim>\<open>null\<close> nor \<^verbatim>\<open>undefined\<close>: the
  property value is converted to a key, then looked up.
\<close>

definition getProperty ::
  "('n, 'x, 'h) primitives \<Rightarrow> 'n val \<Rightarrow> 'n val \<Rightarrow> ('n val, 'x, 'h) comp" where
  "getProperty P object property =
     bind (toString P property) (\<lambda>key. return (getMember P object key))"

text \<open>
  \<^verbatim>\<open>func(...args)\<close> for a value found in the function table that is not a registered
  host function: a function object is called without a receiver, anything else is not
  callable.
\<close>

fun callValue ::
  "('n, 'x, 'h) primitives \<Rightarrow> 'n val \<Rightarrow> 'n val list \<Rightarrow> ('n val, 'x, 'h) comp" where
  "callValue P (VFun f) args = call_function P f VUndef args"
| "callValue P v args = throw TypeError"

section \<open>The abstract syntax tree\<close>

datatype 'n literal = LNum 'n | LStr string | LBool bool | LNull

datatype 'n node =
    Literal "'n literal"
  | Identifier string
  | MemberExpression "'n node" "'n node" bool
  | CallExpression string "'n node list"
  | BinaryExpression string "'n node" "'n node"
  | UnaryExpression string bool "'n node"
  | ConditionalExpression "'n node" "'n node" "'n node"

text \<open>
  The fields are in the order object, property, computed; callee name, arguments;
  operator, left, right; operator, prefix, argument; test, consequent, alternate.
  Operators are strings, as in the source, so that an unknown operator is an input.
\<close>

datatype 'n program = Program (body: "'n node")

section \<open>The interpreter state\<close>

text \<open>
  What a state denotes: the own properties of its context object and of its functions
  object (the registered host functions), and what each of the two objects inherits
  through its prototype chain. \<^verbatim>\<open>name in context\<close>, \<^verbatim>\<open>context[name]\<close> and
  \<^verbatim>\<open>functions[name]\<close> find own and inherited properties.
\<close>

record ('n, 'x, 'h) InterpreterState =
  context_js :: "string \<rightharpoonup> 'n val"
  functions_js :: "string \<rightharpoonup> ('n, 'x, 'h) hostfn"
  context_proto :: "string \<rightharpoonup> 'n val"
  functions_proto :: "string \<rightharpoonup> 'n val"

text \<open>
  In the source a state is an object with a reference to a context object and a
  reference to a functions object, and the operations that build states
  (\<^verbatim>\<open>createInterpreterState\<close>, \<^verbatim>\<open>setFunction\<close>, the first step of \<^verbatim>\<open>evaluate\<close>) use
  object literals and spread syntax. They are modelled on a store, so that what they
  do to existing objects can be stated: a state object is a pair (context reference,
  functions reference), every object literal allocates the next free reference. The
  store holds the own properties of each context and functions object and what the
  object inherits. An object literal inherits from \<^verbatim>\<open>Object.prototype\<close>; spread syntax
  copies own properties only.
\<close>

record ('n, 'x, 'h) store =
  state_objects :: "nat \<Rightarrow> nat \<times> nat"
  context_objects :: "nat \<Rightarrow> (string \<rightharpoonup> 'n val)"
  function_objects :: "nat \<Rightarrow> (string \<rightharpoonup> ('n, 'x, 'h) hostfn)"
  context_inherits :: "nat \<Rightarrow> (string \<rightharpoonup> 'n val)"
  functions_inherit :: "nat \<Rightarrow> (string \<rightharpoonup> 'n val)"
  next_ref :: nat

definition newState :: "('n, 'x, 'h) store \<Rightarrow> nat \<times> nat \<Rightarrow> nat \<times> ('n, 'x, 'h) store" where
  "newState \<sigma> obj =
     (next_ref \<sigma>,
      \<sigma>\<lparr>state_objects := (state_objects \<sigma>)(next_ref \<sigma> := obj), next_ref := Suc (next_ref \<sigma>)\<rparr>)"

definition newContext ::
  "('n, 'x, 'h) store \<Rightarrow> (string \<rightharpoonup> 'n val) \<Rightarrow> nat \<times> ('n, 'x, 'h) store" where
  "newContext \<sigma> obj =
     (next_ref \<sigma>,
      \<sigma>\<lparr>context_objects := (context_objects \<sigma>)(next_ref \<sigma> := obj),
        context_inherits := (context_inherits \<sigma>)(next_ref \<sigma> := map_of objectMembers),
        next_ref := Suc (next_ref \<sigma>)\<rparr>)"

definition newFunctions ::
  "('n, 'x, 'h) store \<Rightarrow> (string \<rightharpoonup> ('n, 'x, 'h) hostfn) \<Rightarrow> nat \<times> ('n, 'x, 'h) store" where
  "newFunctions \<sigma> obj =
     (next_ref \<sigma>,
      \<sigma>\<lparr>function_objects := (function_objects \<sigma>)(next_ref \<sigma> := obj),
        functions_inherit := (functions_inherit \<sigma>)(next_ref \<sigma> := map_of objectMembers),
        next_ref := Suc (next_ref \<sigma>)\<rparr>)"

definition readState :: "('n, 'x, 'h) store \<Rightarrow> nat \<Rightarrow> ('n, 'x, 'h) InterpreterState" where
  "readState \<sigma> state =
     \<lparr>context_js = context_objects \<sigma> (fst (state_objects \<sigma> state)),
      functions_js = function_objects \<sigma> (snd (state_objects \<sigma> state)),
      context_proto = context_inherits \<sigma> (fst (state_objects \<sigma> state)),
      functions_proto = functions_inherit \<sigma> (snd (state_objects \<sigma> state))\<rparr>"

text \<open>A state object of the store whose references are all allocated.\<close>

definition allocated :: "('n, 'x, 'h) store \<Rightarrow> nat \<Rightarrow> bool" where
  "allocated \<sigma> state \<longleftrightarrow>
     state < next_ref \<sigma> \<and> fst (state_objects \<sigma> state) < next_ref \<sigma>
       \<and> snd (state_objects \<sigma> state) < next_ref \<sigma>"

text \<open>
  \<^verbatim>\<open>createInterpreterState(context = {}, functions = {})\<close>: an argument left out is a
  new empty object; the state refers to the objects it is given, without copying them.
\<close>

definition createInterpreterState ::
  "('n, 'x, 'h) store \<Rightarrow> nat option \<Rightarrow> nat option \<Rightarrow> nat \<times> ('n, 'x, 'h) store" where
  "createInterpreterState \<sigma> ctx fns =
     (let (c, \<sigma>1) = (case ctx of None \<Rightarrow> newContext \<sigma> Map.empty | Some c \<Rightarrow> (c, \<sigma>));
          (f, \<sigma>2) = (case fns of None \<Rightarrow> newFunctions \<sigma>1 Map.empty | Some f \<Rightarrow> (f, \<sigma>1))
      in newState \<sigma>2 (c, f))"

text \<open>\<^verbatim>\<open>{ ...state, functions: { ...state.functions, [name]: fn } }\<close>\<close>

definition setFunction ::
  "('n, 'x, 'h) store \<Rightarrow> nat \<Rightarrow> string \<Rightarrow> ('n, 'x, 'h) hostfn \<Rightarrow> nat \<times> ('n, 'x, 'h) store" where
  "setFunction \<sigma> state name fn =
     (let (c, f) = state_objects \<sigma> state;
          (f', \<sigma>1) = newFunctions \<sigma> ((function_objects \<sigma> f)(name \<mapsto> fn))
      in newState \<sigma>1 (c, f'))"

section \<open>The evaluator\<close>

fun evaluateLiteral :: "'n literal \<Rightarrow> 'n val" where
  "evaluateLiteral (LNum n) = VNum n"
| "evaluateLiteral (LStr s) = VStr s"
| "evaluateLiteral (LBool b) = VBool b"
| "evaluateLiteral LNull = VNull"

text \<open>
  \<^verbatim>\<open>name in evaluationState.context\<close> holds for an own and for an inherited property,
  and \<^verbatim>\<open>evaluationState.context[name]\<close> reads the own property before the inherited one.
\<close>

definition evaluateIdentifier ::
  "('n, 'x, 'h) InterpreterState \<Rightarrow> string \<Rightarrow> ('n val, 'x, 'h) comp" where
  "evaluateIdentifier evaluationState name =
     (case context_js evaluationState name of
        Some v \<Rightarrow> return v
      | None \<Rightarrow>
          (case context_proto evaluationState name of
             Some v \<Rightarrow> return v
           | None \<Rightarrow> throw (ExpressionError (''Undefined variable: '' @ name))))"

text \<open>The key of a member expression that is not computed: \<^verbatim>\<open>(node.property as Identifier).name\<close>.\<close>

fun propertyName :: "'n node \<Rightarrow> 'n val" where
  "propertyName (Identifier name) = VStr name"
| "propertyName n = VUndef"

text \<open>The \<^verbatim>\<open>switch\<close> of \<^verbatim>\<open>evaluateBinaryExpression\<close>, on the two evaluated operands.\<close>

definition binaryOperator ::
  "('n, 'x, 'h) primitives \<Rightarrow> string \<Rightarrow> 'n val \<Rightarrow> 'n val \<Rightarrow> ('n val, 'x, 'h) comp" where
  "binaryOperator P operator left right =
     (if operator = ''+'' then
        (if is_number left \<and> is_number right
         then return (VNum (num_add P (primitiveToNumber P left) (primitiveToNumber P right)))
         else bind (toString P left) (\<lambda>l.
                bind (toString P right) (\<lambda>r. return (VStr (l @ r)))))
      else if operator = ''-'' then arithmetic P (num_sub P) left right
      else if operator = ''*'' then arithmetic P (num_mul P) left right
      else if operator = ''/'' then arithmetic P (num_div P) left right
      else if operator = ''%'' then arithmetic P (num_mod P) left right
      else if operator = ''==='' then return (VBool (strictEquals P left right))
      else if operator = ''!=='' then return (VBool (\<not> strictEquals P left right))
      else if operator = ''>'' then relational P (\<lambda>l r. lessThan_js P r l = Some True) left right
      else if operator = ''>='' then relational P (\<lambda>l r. lessThan_js P l r = Some False) left right
      else if operator = ''<'' then relational P (\<lambda>l r. lessThan_js P l r = Some True) left right
      else if operator = ''<='' then relational P (\<lambda>l r. lessThan_js P r l = Some False) left right
      else if operator = ''&&'' then return (if truthy P left then right else left)
      else if operator = ''||'' then return (if truthy P left then left else right)
      else throw (ExpressionError (''Unknown operator: '' @ operator)))"

text \<open>
  The body of \<^verbatim>\<open>evaluateUnaryExpression\<close> after its argument is evaluated. The message
  for a non-number is a template literal: the argument is converted to a string.
\<close>

definition unaryOperator ::
  "('n, 'x, 'h) primitives \<Rightarrow> string \<Rightarrow> bool \<Rightarrow> 'n val \<Rightarrow> ('n val, 'x, 'h) comp" where
  "unaryOperator P operator prefix argument =
     (if prefix then
        (if operator = ''!'' then return (VBool (\<not> truthy P argument))
         else if operator = ''-'' then
           (if \<not> is_number argument
            then bind (toString P argument) (\<lambda>shown.
                   throw (ExpressionError (''Cannot apply unary - to non-number: '' @ shown)))
            else return (VNum (num_neg P (primitiveToNumber P argument))))
         else throw (ExpressionError (''Unknown operator: '' @ operator)))
      else throw (ExpressionError (''Postfix operators are not supported: '' @ operator)))"

text \<open>
  \<^verbatim>\<open>evaluateNode\<close> with the functions it dispatches to. \<open>evaluateArguments\<close> is
  \<^verbatim>\<open>node.arguments.map((arg) => evaluateNode(arg))\<close>: left to right, stopping at the
  first argument that throws.

  In a call, \<^verbatim>\<open>evaluationState.functions[node.callee.name]\<close> finds a registered host
  function or, failing that, a value that the functions object inherits; the test
  \<^verbatim>\<open>!func\<close> rejects a value that is not truthy.
\<close>

fun evaluateNode ::
    "('n, 'x, 'h) primitives \<Rightarrow> ('n, 'x, 'h) InterpreterState \<Rightarrow> 'n node \<Rightarrow> ('n val, 'x, 'h) comp"
  and evaluateArguments ::
    "('n, 'x, 'h) primitives \<Rightarrow> ('n, 'x, 'h) InterpreterState \<Rightarrow> 'n node list
       \<Rightarrow> ('n val list, 'x, 'h) comp"
where
  "evaluateNode P st (Literal l) = tryCatch (return (evaluateLiteral l))"
| "evaluateNode P st (Identifier name) = tryCatch (evaluateIdentifier st name)"
| "evaluateNode P st (MemberExpression object property computed) =
     tryCatch
       (bind (evaluateNode P st object) (\<lambda>obj.
          if obj = VNull \<or> obj = VUndef
          then throw (ExpressionError ''Cannot access property of null or undefined'')
          else bind (if computed then evaluateNode P st property else return (propertyName property))
                 (\<lambda>key. getProperty P obj key)))"
| "evaluateNode P st (CallExpression callee arguments) =
     tryCatch
       (case functions_js st callee of
          Some func \<Rightarrow> bind (evaluateArguments P st arguments) (\<lambda>args. func args)
        | None \<Rightarrow>
            (case functions_proto st callee of
               None \<Rightarrow> throw (ExpressionError (''Undefined function: '' @ callee))
             | Some found \<Rightarrow>
                 if \<not> truthy P found
                 then throw (ExpressionError (''Undefined function: '' @ callee))
                 else bind (evaluateArguments P st arguments) (\<lambda>args. callValue P found args)))"
| "evaluateNode P st (BinaryExpression operator left right) =
     tryCatch
       (bind (evaluateNode P st left) (\<lambda>l.
          bind (evaluateNode P st right) (\<lambda>r.
            binaryOperator P operator l r)))"
| "evaluateNode P st (UnaryExpression operator prefix argument) =
     tryCatch
       (bind (evaluateNode P st argument) (\<lambda>arg.
          unaryOperator P operator prefix arg))"
| "evaluateNode P st (ConditionalExpression test consequent alternate) =
     tryCatch
       (bind (evaluateNode P st test) (\<lambda>t.
          if truthy P t then evaluateNode P st consequent else evaluateNode P st alternate))"
| "evaluateArguments P st [] = return []"
| "evaluateArguments P st (arg # rest) =
     bind (evaluateNode P st arg) (\<lambda>v.
       bind (evaluateArguments P st rest) (\<lambda>vs. return (v # vs)))"

text \<open>
  \<^verbatim>\<open>evaluate(ast, state, context?)\<close>. With a context override the evaluation state is
  \<^verbatim>\<open>{ ...state, context: { ...state.context, ...context } }\<close>; the closures then read
  \<^verbatim>\<open>evaluationState.context\<close> and \<^verbatim>\<open>evaluationState.functions\<close>. The result is the
  computation on the host state, with the store after the call.
\<close>

definition evaluate ::
  "('n, 'x, 'h) primitives \<Rightarrow> ('n, 'x, 'h) store \<Rightarrow> 'n program \<Rightarrow> nat \<Rightarrow> nat option
     \<Rightarrow> ('n val, 'x, 'h) comp \<times> ('n, 'x, 'h) store" where
  "evaluate P \<sigma> ast state ctx =
     (let (evaluationState, \<sigma>') =
        (case ctx of
           None \<Rightarrow> (state, \<sigma>)
         | Some override \<Rightarrow>
             (let (c, f) = state_objects \<sigma> state;
                  (c', \<sigma>1) = newContext \<sigma> (context_objects \<sigma> c ++ context_objects \<sigma> override)
              in newState \<sigma>1 (c', f)))
      in (evaluateNode P (readState \<sigma>' evaluationState) (body ast), \<sigma>'))"

section \<open>Notions used to state the properties\<close>

text \<open>
  The effective context of a call of \<^verbatim>\<open>evaluate\<close>, in the words of the specification:
  the context of the state, with the override merged over it when one is supplied.
  It is compared with what \<^verbatim>\<open>evaluate\<close> computes in \<open>evaluate_run\<close> below.
\<close>

definition effectiveContext ::
  "('n, 'x, 'h) store \<Rightarrow> nat \<Rightarrow> nat option \<Rightarrow> (string \<rightharpoonup> 'n val)" where
  "effectiveContext \<sigma> state ctx =
     (case ctx of
        None \<Rightarrow> context_js (readState \<sigma> state)
      | Some override \<Rightarrow> context_js (readState \<sigma> state) ++ context_objects \<sigma> override)"




section \<open>A sample runtime for concrete programs\<close>

text \<open>
  To run the evaluator on concrete programs the runtime needs an instance.
  The sample numbers are the integers, NaN and the two infinities. They agree with the
  doubles wherever both operands and the result are integers of magnitude below
  \<open>2^53\<close>; a quotient that is not an integer lies outside the sample and is reported
  as NaN. Strings are converted to numbers only when they are empty or decimal
  digits with an optional minus sign.
\<close>

datatype snum = Fin int | NaN | PosInf | NegInf

fun snum_neg :: "snum \<Rightarrow> snum" where
  "snum_neg (Fin a) = Fin (- a)"
| "snum_neg NaN = NaN"
| "snum_neg PosInf = NegInf"
| "snum_neg NegInf = PosInf"

fun snum_add :: "snum \<Rightarrow> snum \<Rightarrow> snum" where
  "snum_add (Fin a) (Fin b) = Fin (a + b)"
| "snum_add NaN b = NaN"
| "snum_add a NaN = NaN"
| "snum_add PosInf NegInf = NaN"
| "snum_add NegInf PosInf = NaN"
| "snum_add PosInf b = PosInf"
| "snum_add NegInf b = NegInf"
| "snum_add a PosInf = PosInf"
| "snum_add a NegInf = NegInf"

definition snum_sub :: "snum \<Rightarrow> snum \<Rightarrow> snum" where
  "snum_sub a b = snum_add a (snum_neg b)"

fun snum_sign :: "snum \<Rightarrow> int" where
  "snum_sign (Fin a) = sgn a"
| "snum_sign NaN = 0"
| "snum_sign PosInf = 1"
| "snum_sign NegInf = - 1"

definition snum_inf :: "int \<Rightarrow> snum" where
  "snum_inf s = (if s = 0 then NaN else if 0 < s then PosInf else NegInf)"

fun snum_mul :: "snum \<Rightarrow> snum \<Rightarrow> snum" where
  "snum_mul (Fin a) (Fin b) = Fin (a * b)"
| "snum_mul NaN b = NaN"
| "snum_mul a NaN = NaN"
| "snum_mul a b = snum_inf (snum_sign a * snum_sign b)"

fun snum_div :: "snum \<Rightarrow> snum \<Rightarrow> snum" where
  "snum_div (Fin a) (Fin b) =
     (if b = 0 then snum_inf (sgn a) else if b dvd a then Fin (a div b) else NaN)"
| "snum_div NaN b = NaN"
| "snum_div a NaN = NaN"
| "snum_div (Fin a) b = Fin 0"
| "snum_div a (Fin b) = snum_inf (snum_sign a * (if b < 0 then - 1 else 1))"
| "snum_div a b = NaN"

fun snum_mod :: "snum \<Rightarrow> snum \<Rightarrow> snum" where
  "snum_mod (Fin a) (Fin b) = (if b = 0 then NaN else Fin (sgn a * (\<bar>a\<bar> mod \<bar>b\<bar>)))"
| "snum_mod (Fin a) PosInf = Fin a"
| "snum_mod (Fin a) NegInf = Fin a"
| "snum_mod a b = NaN"

fun snum_less :: "snum \<Rightarrow> snum \<Rightarrow> bool option" where
  "snum_less (Fin a) (Fin b) = Some (a < b)"
| "snum_less NaN b = None"
| "snum_less a NaN = None"
| "snum_less a NegInf = Some False"
| "snum_less PosInf b = Some False"
| "snum_less a b = Some True"

fun snum_eq :: "snum \<Rightarrow> snum \<Rightarrow> bool" where
  "snum_eq NaN b = False"
| "snum_eq a NaN = False"
| "snum_eq a b = (a = b)"

fun snum_falsy :: "snum \<Rightarrow> bool" where
  "snum_falsy (Fin a) = (a = 0)"
| "snum_falsy NaN = True"
| "snum_falsy a = False"

fun digits :: "nat \<Rightarrow> string" where
  "digits n = (if n < 10 then [''0123456789'' ! n] else digits (n div 10) @ [''0123456789'' ! (n mod 10)])"

fun snum_to_string :: "snum \<Rightarrow> string" where
  "snum_to_string (Fin a) = (if a < 0 then ''-'' @ digits (nat (- a)) else digits (nat a))"
| "snum_to_string NaN = ''NaN''"
| "snum_to_string PosInf = ''Infinity''"
| "snum_to_string NegInf = ''-Infinity''"

fun parse_digits :: "nat \<Rightarrow> string \<Rightarrow> nat option" where
  "parse_digits acc [] = Some acc"
| "parse_digits acc (c # cs) =
     (if c \<in> set ''0123456789''
      then parse_digits (10 * acc + (of_char c - 48)) cs
      else None)"

fun snum_of_string :: "string \<Rightarrow> snum" where
  "snum_of_string [] = Fin 0"
| "snum_of_string (c # cs) =
     (if c = CHR ''-'' \<and> cs \<noteq> []
      then (case parse_digits 0 cs of Some n \<Rightarrow> Fin (- int n) | None \<Rightarrow> NaN)
      else (case parse_digits 0 (c # cs) of Some n \<Rightarrow> Fin (int n) | None \<Rightarrow> NaN))"

text \<open>
  A string has its \<^verbatim>\<open>length\<close> and its characters at the canonical index keys; the
  sample knows no other property of a primitive value.
\<close>

fun sample_get :: "snum val \<Rightarrow> string \<Rightarrow> snum val" where
  "sample_get (VStr s) key =
     (if key = ''length'' then VNum (Fin (int (length s)))
      else (case parse_digits 0 key of
              Some i \<Rightarrow> (if key \<noteq> [] \<and> digits i = key \<and> i < length s then VStr [s ! i] else VUndef)
            | None \<Rightarrow> VUndef))"
| "sample_get v key = VUndef"

text \<open>
  Of the built-in functions the sample has \<^verbatim>\<open>Object.prototype.toString\<close> and
  \<^verbatim>\<open>Object.prototype.valueOf\<close>, for the receivers that the evaluator passes: none
  (\<^verbatim>\<open>undefined\<close>) in a call expression, an object in a conversion. Any other call is
  outside the sample and says so with an error of the host's kind. Of a function
  object the sample knows the methods \<^verbatim>\<open>toString\<close> and \<^verbatim>\<open>valueOf\<close> only.
\<close>

fun classTag :: "snum val \<Rightarrow> string" where
  "classTag VUndef = ''[object Undefined]''"
| "classTag VNull = ''[object Null]''"
| "classTag (VNum n) = ''[object Number]''"
| "classTag (VStr s) = ''[object String]''"
| "classTag (VBool b) = ''[object Boolean]''"
| "classTag (VFun f) = ''[object Function]''"
| "classTag (VObj r own inherited) = ''[object Object]''"

definition sample_call ::
  "string \<Rightarrow> snum val \<Rightarrow> snum val list \<Rightarrow> (snum val, string, string list) comp" where
  "sample_call f receiver args =
     (if f = ''Object.prototype.toString'' then return (VStr (classTag receiver))
      else if f = ''Object.prototype.valueOf'' \<and> (receiver = VUndef \<or> receiver = VNull)
        then throw TypeError
      else if f = ''Object.prototype.valueOf'' \<and> is_object receiver then return receiver
      else throw (HostError ''outside the sample''))"

definition sample_fun_get :: "string \<Rightarrow> string \<Rightarrow> snum val" where
  "sample_fun_get f key =
     (if key = ''toString'' then VFun ''Function.prototype.toString''
      else if key = ''valueOf'' then VFun ''Object.prototype.valueOf''
      else VUndef)"

definition sample :: "(snum, string, string list) primitives" where
  "sample =
     \<lparr>num_add = snum_add, num_sub = snum_sub, num_mul = snum_mul, num_div = snum_div,
      num_mod = snum_mod, num_neg = snum_neg, num_less = snum_less, num_eq = snum_eq,
      num_falsy = snum_falsy, num_to_string = snum_to_string, string_to_num = snum_of_string,
      num_zero = Fin 0, num_one = Fin 1, num_nan = NaN, prim_get = sample_get,
      fun_get = sample_fun_get, call_function = sample_call\<rparr>"

text \<open>
  Sample host functions. The host state is the log of the calls made so far, most
  recent last; the error a host function throws is a string.
  \<open>sum\<close> is \<^verbatim>\<open>(a, b) => a + b\<close> on numbers, \<open>tick\<close> logs its call and returns its
  first argument, \<open>boom\<close> logs its call and throws an error of its own, and
  \<open>reject\<close> logs its call and throws an \<^verbatim>\<open>ExpressionError\<close>.
\<close>

definition sum_fn :: "(snum, string, string list) hostfn" where
  "sum_fn args =
     (case args of
        [VNum a, VNum b] \<Rightarrow> return (VNum (snum_add a b))
      | _ \<Rightarrow> return (VNum NaN))"

definition tick_fn :: "(snum, string, string list) hostfn" where
  "tick_fn args = (\<lambda>h. (Inr (case args of [] \<Rightarrow> VUndef | v # vs \<Rightarrow> v), h @ [''tick'']))"

definition boom_fn :: "(snum, string, string list) hostfn" where
  "boom_fn args = (\<lambda>h. (Inl (HostError ''boom''), h @ [''boom'']))"

definition reject_fn :: "(snum, string, string list) hostfn" where
  "reject_fn args = (\<lambda>h. (Inl (ExpressionError ''rejected''), h @ [''reject'']))"

text \<open>
  The sample state is what \<^verbatim>\<open>createInterpreterState\<close> gives for the context
  \<^verbatim>\<open>{data: {value: 42}, nothing: null, odd: {toString: 1}}\<close> and the four functions:
  the context, the function table and the two data objects are object literals, so
  each inherits from \<^verbatim>\<open>Object.prototype\<close>.
\<close>

definition sample_state :: "(snum, string, string list) InterpreterState" where
  "sample_state =
     \<lparr>context_js = [''data'' \<mapsto> VObj 1 [(''value'', VNum (Fin 42))] objectMembers,
                     ''nothing'' \<mapsto> VNull,
                     ''odd'' \<mapsto> VObj 2 [(''toString'', VNum (Fin 1))] objectMembers],
      functions_js = [''sum'' \<mapsto> sum_fn, ''tick'' \<mapsto> tick_fn, ''boom'' \<mapsto> boom_fn,
                      ''reject'' \<mapsto> reject_fn],
      context_proto = map_of objectMembers,
      functions_proto = map_of objectMembers\<rparr>"

text \<open>
  A sample store: the state at reference 2 has the context at reference 0 and the
  function table at reference 1; reference 3 is a context to be used as an override.
\<close>

definition sample_store :: "(snum, string, string list) store" where
  "sample_store =
     \<lparr>state_objects = (\<lambda>r. (0, 1)),
      context_objects = (\<lambda>r. if r = 3 then [''nothing'' \<mapsto> VNum (Fin 7), ''extra'' \<mapsto> VBool True]
                              else context_js sample_state),
      function_objects = (\<lambda>r. functions_js sample_state),
      context_inherits = (\<lambda>r. map_of objectMembers),
      functions_inherit = (\<lambda>r. map_of objectMembers),
      next_ref = 4\<rparr>"

text \<open>The store before the host has made any object.\<close>

definition empty_store :: "(snum, string, string list) store" where
  "empty_store =
     \<lparr>state_objects = (\<lambda>r. (0, 0)), context_objects = (\<lambda>r. Map.empty),
      function_objects = (\<lambda>r. Map.empty), context_inherits = (\<lambda>r. Map.empty),
      functions_inherit = (\<lambda>r. Map.empty), next_ref = 0\<rparr>"

text \<open>
  \<^verbatim>\<open>createInterpreterState()\<close> on that store, and
  \<^verbatim>\<open>setFunction(createInterpreterState(), "tick", tick)\<close>.
\<close>

definition fresh_state :: "nat \<times> (snum, string, string list) store" where
  "fresh_state = createInterpreterState empty_store None None"

definition ticking_state :: "nat \<times> (snum, string, string list) store" where
  "ticking_state = setFunction (snd fresh_state) (fst fresh_state) ''tick'' tick_fn"

section \<open>Properties of the combinators\<close>

lemmas comp_defs = return_def throw_def bind_def tryCatch_def

lemmas object_defs = objectMembers_def objectFunctions_def objectPrototype_def

lemmas sample_defs = sample_def sample_state_def sum_fn_def tick_fn_def boom_fn_def reject_fn_def
  sample_call_def sample_fun_get_def object_defs

lemmas sample_store_defs = sample_store_def sample_state_def

lemmas conversion_defs = toString_def toNumber_def toPrimitive_def getProperty_def




section \<open>State resolution\<close>

text \<open>
  What \<^verbatim>\<open>evaluate\<close> runs is the dispatch on the root node, in a state whose context is
  the effective context and whose function table is that of the state it was given.
  A merged context is a new object literal: it inherits from \<^verbatim>\<open>Object.prototype\<close>.
\<close>

lemma evaluate_run:
  "fst (evaluate P \<sigma> ast state ctx) =
     evaluateNode P \<lparr>context_js = effectiveContext \<sigma> state ctx,
                      functions_js = functions_js (readState \<sigma> state),
                      context_proto = (case ctx of None \<Rightarrow> context_proto (readState \<sigma> state)
                                       | Some override \<Rightarrow> map_of objectMembers),
                      functions_proto = functions_proto (readState \<sigma> state)\<rparr> (body ast)"
  by (cases ctx)
    (simp_all add: evaluate_def effectiveContext_def newState_def newContext_def readState_def
       split_def Let_def)

section \<open>Building states\<close>

text \<open>
  Claim C7. \<^verbatim>\<open>setFunction(s1, name, fn)\<close> returns a new state object \<open>s2\<close>: its function
  table is that of \<open>s1\<close> with \<open>name\<close> bound to \<open>fn\<close> (inserted or overwritten), its
  context is that of \<open>s1\<close>. No object that existed before the call is changed, so
  \<open>s1\<close> reads as it did before; in particular a name that \<open>s1\<close> did not have is still
  absent from it.
\<close>

theorem setFunction_new_state:
  assumes "allocated \<sigma> s1"
    and "setFunction \<sigma> s1 name fn = (s2, \<sigma>')"
  shows "functions_js (readState \<sigma>' s2) = (functions_js (readState \<sigma> s1))(name \<mapsto> fn)
       \<and> context_js (readState \<sigma>' s2) = context_js (readState \<sigma> s1)
       \<and> readState \<sigma>' s1 = readState \<sigma> s1
       \<and> (\<forall>r<next_ref \<sigma>. state_objects \<sigma>' r = state_objects \<sigma> r
              \<and> context_objects \<sigma>' r = context_objects \<sigma> r
              \<and> function_objects \<sigma>' r = function_objects \<sigma> r)
       \<and> s2 \<noteq> s1 \<and> allocated \<sigma>' s2
       \<and> context_proto (readState \<sigma>' s2) = context_proto (readState \<sigma> s1)
       \<and> functions_proto (readState \<sigma>' s2) = map_of objectMembers
       \<and> (\<forall>r<next_ref \<sigma>. context_inherits \<sigma>' r = context_inherits \<sigma> r
              \<and> functions_inherit \<sigma>' r = functions_inherit \<sigma> r)"
proof -
  obtain c f where cf: "state_objects \<sigma> s1 = (c, f)"
    by (cases "state_objects \<sigma> s1")
  from assms(1) cf have bounds: "s1 < next_ref \<sigma>" "c < next_ref \<sigma>" "f < next_ref \<sigma>"
    by (simp_all add: allocated_def)
  from assms(2) cf have s2: "s2 = Suc (next_ref \<sigma>)"
    and \<sigma>': "\<sigma>' = \<sigma>\<lparr>function_objects :=
                     (function_objects \<sigma>)(next_ref \<sigma> := (function_objects \<sigma> f)(name \<mapsto> fn)),
                   functions_inherit := (functions_inherit \<sigma>)(next_ref \<sigma> := map_of objectMembers),
                   state_objects := (state_objects \<sigma>)(Suc (next_ref \<sigma>) := (c, next_ref \<sigma>)),
                   next_ref := Suc (Suc (next_ref \<sigma>))\<rparr>"
    by (auto simp add: setFunction_def newFunctions_def newState_def Let_def)
  show ?thesis
    using bounds cf by (simp add: s2 \<sigma>' readState_def allocated_def)
qed

theorem setFunction_new_state_witness:
  "allocated sample_store 2
 \<and> functions_js (readState sample_store 2) ''f'' = None
 \<and> functions_js (readState (snd (setFunction sample_store 2 ''f'' tick_fn)) 2) ''f'' = None
 \<and> functions_js (readState (snd (setFunction sample_store 2 ''f'' tick_fn))
      (fst (setFunction sample_store 2 ''f'' tick_fn))) ''f'' = Some tick_fn
 \<and> state_objects (snd (setFunction sample_store 2 ''f'' tick_fn)) 2 = state_objects sample_store 2
 \<and> function_objects (snd (setFunction sample_store 2 ''f'' tick_fn)) 1 = function_objects sample_store 1"
proof -
  have alloc: "allocated sample_store 2"
    by (simp add: allocated_def sample_store_def)
  have run: "setFunction sample_store 2 ''f'' tick_fn =
      (fst (setFunction sample_store 2 ''f'' tick_fn), snd (setFunction sample_store 2 ''f'' tick_fn))"
    by simp
  have none: "functions_js (readState sample_store 2) ''f'' = None"
    by (simp add: readState_def sample_store_defs)
  have lt: "(2::nat) < next_ref sample_store" "(1::nat) < next_ref sample_store"
    by (simp_all add: sample_store_def)
  from setFunction_new_state [OF alloc run] alloc none lt show ?thesis
    by auto
qed

text \<open>
  Claim C8. With a context override, \<^verbatim>\<open>evaluate\<close> runs the whole evaluation in one
  state: its context is the override merged over the context of the given state (a key
  of the override has the override's value, any other key the value of the state's
  context), its function table is that of the given state. The merged context is a new
  object literal, so it inherits from \<^verbatim>\<open>Object.prototype\<close>. The call changes no object
  that existed before it, so the given state reads as it did before.
\<close>

theorem evaluate_context_override:
  assumes "allocated \<sigma> state"
    and "override < next_ref \<sigma>"
    and "evaluate P \<sigma> ast state (Some override) = (run, \<sigma>')"
  shows "run = evaluateNode P
                 \<lparr>context_js = context_js (readState \<sigma> state) ++ context_objects \<sigma> override,
                  functions_js = functions_js (readState \<sigma> state),
                  context_proto = map_of objectMembers,
                  functions_proto = functions_proto (readState \<sigma> state)\<rparr> (body ast)
       \<and> (\<forall>key. (context_js (readState \<sigma> state) ++ context_objects \<sigma> override) key =
              (case context_objects \<sigma> override key of
                 Some v \<Rightarrow> Some v
               | None \<Rightarrow> context_js (readState \<sigma> state) key))
       \<and> readState \<sigma>' state = readState \<sigma> state
       \<and> (\<forall>r<next_ref \<sigma>. state_objects \<sigma>' r = state_objects \<sigma> r
              \<and> context_objects \<sigma>' r = context_objects \<sigma> r
              \<and> function_objects \<sigma>' r = function_objects \<sigma> r)
       \<and> (\<forall>r<next_ref \<sigma>. context_inherits \<sigma>' r = context_inherits \<sigma> r
              \<and> functions_inherit \<sigma>' r = functions_inherit \<sigma> r)"
proof -
  obtain c f where cf: "state_objects \<sigma> state = (c, f)"
    by (cases "state_objects \<sigma> state")
  from assms(1) cf have bounds: "state < next_ref \<sigma>" "c < next_ref \<sigma>" "f < next_ref \<sigma>"
    by (simp_all add: allocated_def)
  from assms(3) have run: "run = fst (evaluate P \<sigma> ast state (Some override))"
    by simp
  from assms(3) cf
  have \<sigma>': "\<sigma>' = \<sigma>\<lparr>context_objects :=
                     (context_objects \<sigma>)(next_ref \<sigma> := context_objects \<sigma> c ++ context_objects \<sigma> override),
                   context_inherits := (context_inherits \<sigma>)(next_ref \<sigma> := map_of objectMembers),
                   state_objects := (state_objects \<sigma>)(Suc (next_ref \<sigma>) := (next_ref \<sigma>, f)),
                   next_ref := Suc (Suc (next_ref \<sigma>))\<rparr>"
    by (auto simp add: evaluate_def newContext_def newState_def Let_def)
  have effective: "run = evaluateNode P
                 \<lparr>context_js = context_js (readState \<sigma> state) ++ context_objects \<sigma> override,
                  functions_js = functions_js (readState \<sigma> state),
                  context_proto = map_of objectMembers,
                  functions_proto = functions_proto (readState \<sigma> state)\<rparr> (body ast)"
    by (simp add: run evaluate_run effectiveContext_def)
  have merge: "\<forall>key. (context_js (readState \<sigma> state) ++ context_objects \<sigma> override) key =
              (case context_objects \<sigma> override key of
                 Some v \<Rightarrow> Some v
               | None \<Rightarrow> context_js (readState \<sigma> state) key)"
    by (simp add: map_add_def split: option.splits)
  have same: "readState \<sigma>' state = readState \<sigma> state"
    using bounds cf by (simp add: \<sigma>' readState_def)
  have frame: "\<forall>r<next_ref \<sigma>. state_objects \<sigma>' r = state_objects \<sigma> r
              \<and> context_objects \<sigma>' r = context_objects \<sigma> r
              \<and> function_objects \<sigma>' r = function_objects \<sigma> r"
    by (simp add: \<sigma>')
  have frame': "\<forall>r<next_ref \<sigma>. context_inherits \<sigma>' r = context_inherits \<sigma> r
              \<and> functions_inherit \<sigma>' r = functions_inherit \<sigma> r"
    by (simp add: \<sigma>')
  from effective merge same frame frame' show ?thesis
    by blast
qed

theorem evaluate_context_override_witness:
  "allocated sample_store 2 \<and> (3::nat) < next_ref sample_store
 \<and> fst (evaluate sample sample_store (Program (Identifier ''nothing'')) 2 (Some 3)) [] =
      (Inr (VNum (Fin 7)), [])
 \<and> fst (evaluate sample sample_store (Program (Identifier ''extra'')) 2 (Some 3)) [] =
      (Inr (VBool True), [])
 \<and> fst (evaluate sample sample_store
      (Program (MemberExpression (Identifier ''data'') (Identifier ''value'') False)) 2 (Some 3)) [] =
      (Inr (VNum (Fin 42)), [])
 \<and> readState (snd (evaluate sample sample_store (Program (Identifier ''nothing'')) 2 (Some 3))) 2 =
      readState sample_store 2
 \<and> context_js (readState sample_store 2) ''nothing'' = Some VNull
 \<and> context_objects (snd (evaluate sample sample_store (Program (Identifier ''nothing'')) 2 (Some 3))) 0 =
      context_objects sample_store 0"
proof -
  have alloc: "allocated sample_store 2"
    by (simp add: allocated_def sample_store_def)
  have ov: "(3::nat) < next_ref sample_store" and zero: "(0::nat) < next_ref sample_store"
    by (simp_all add: sample_store_def)
  have run: "evaluate sample sample_store ast 2 (Some 3) =
      (fst (evaluate sample sample_store ast 2 (Some 3)), snd (evaluate sample sample_store ast 2 (Some 3)))"
    for ast
    by simp
  have merged: "context_js (readState sample_store 2) ++ context_objects sample_store 3 =
      [''data'' \<mapsto> VObj 1 [(''value'', VNum (Fin 42))] objectMembers,
       ''odd'' \<mapsto> VObj 2 [(''toString'', VNum (Fin 1))] objectMembers,
       ''nothing'' \<mapsto> VNum (Fin 7), ''extra'' \<mapsto> VBool True]"
    by (rule ext) (simp add: readState_def sample_store_defs map_add_def)
  have stored: "context_js (readState sample_store 2) ''nothing'' = Some VNull"
    by (simp add: readState_def sample_store_defs)
  note a = evaluate_context_override [OF alloc ov run [of "Program (Identifier ''nothing'')"]]
  note b = evaluate_context_override [OF alloc ov run [of "Program (Identifier ''extra'')"]]
  note c = evaluate_context_override
    [OF alloc ov run [of "Program (MemberExpression (Identifier ''data'') (Identifier ''value'') False)"]]
  from a have 1: "fst (evaluate sample sample_store (Program (Identifier ''nothing'')) 2 (Some 3)) [] =
      (Inr (VNum (Fin 7)), [])"
    by (simp add: merged evaluateIdentifier_def comp_defs)
  from b have 2: "fst (evaluate sample sample_store (Program (Identifier ''extra'')) 2 (Some 3)) [] =
      (Inr (VBool True), [])"
    by (simp add: merged evaluateIdentifier_def comp_defs)
  from c have 3: "fst (evaluate sample sample_store
      (Program (MemberExpression (Identifier ''data'') (Identifier ''value'') False)) 2 (Some 3)) [] =
      (Inr (VNum (Fin 42)), [])"
    by (simp add: merged evaluateIdentifier_def conversion_defs comp_defs)
  from a zero have 4: "readState (snd (evaluate sample sample_store (Program (Identifier ''nothing'')) 2 (Some 3))) 2 =
      readState sample_store 2"
    and 5: "context_objects (snd (evaluate sample sample_store (Program (Identifier ''nothing'')) 2 (Some 3))) 0 =
      context_objects sample_store 0"
    by blast+
  from alloc ov 1 2 3 4 5 stored show ?thesis
    by blast
qed


section \<open>Binary operators\<close>

lemma logical_value:
  assumes "evaluateNode P st left h = (Inr l, h1)"
    and "evaluateNode P st right h1 = (Inr r, h2)"
  shows "evaluateNode P st (BinaryExpression ''&&'' left right) h =
           (Inr (if truthy P l then r else l), h2)"
    and "evaluateNode P st (BinaryExpression ''||'' left right) h =
           (Inr (if truthy P l then l else r), h2)"
  using assms by (simp_all add: comp_defs binaryOperator_def)

lemma binary_right_error:
  assumes "evaluateNode P st left h = (Inr l, h1)"
    and "evaluateNode P st right h1 = (Inl e, h2)"
  shows "evaluateNode P st (BinaryExpression operator left right) h = (Inl (rethrow e), h2)"
  using assms by (simp add: comp_defs)

text \<open>
  Claim C1, as the code has it. For \<^verbatim>\<open>&&\<close> and \<^verbatim>\<open>||\<close>, once the left operand has
  evaluated to a value the right operand is evaluated, whatever that value is: if the
  right operand fails the expression fails with its error, and otherwise the host state
  is the one after the right operand. The result is one of the two operand values,
  not a boolean made from them: for \<^verbatim>\<open>&&\<close> the left value when it is falsy and the
  right value otherwise, for \<^verbatim>\<open>||\<close> the left value when it is truthy and the right
  value otherwise. Its truthiness is the logical AND/OR of the operands' truthiness,
  and for two booleans it is their logical AND/OR.
\<close>

theorem logical_operators_evaluate_both:
  assumes "operator = ''&&'' \<or> operator = ''||''"
    and "evaluateNode P st left h = (Inr l, h1)"
  shows "(\<forall>e h2. evaluateNode P st right h1 = (Inl e, h2) \<longrightarrow>
            evaluateNode P st (BinaryExpression operator left right) h = (Inl (rethrow e), h2))
       \<and> (\<forall>r h2. evaluateNode P st right h1 = (Inr r, h2) \<longrightarrow>
            (\<exists>v. evaluateNode P st (BinaryExpression operator left right) h = (Inr v, h2)
               \<and> v = (if operator = ''&&'' then (if truthy P l then r else l)
                                          else (if truthy P l then l else r))
               \<and> truthy P v = (if operator = ''&&'' then truthy P l \<and> truthy P r
                                                   else truthy P l \<or> truthy P r)
               \<and> (\<forall>a b. l = VBool a \<and> r = VBool b \<longrightarrow>
                    v = VBool (if operator = ''&&'' then a \<and> b else a \<or> b))))"
proof (intro conjI allI impI)
  fix e h2
  assume "evaluateNode P st right h1 = (Inl e, h2)"
  with assms(2) show "evaluateNode P st (BinaryExpression operator left right) h = (Inl (rethrow e), h2)"
    by (rule binary_right_error)
next
  fix r h2
  assume right: "evaluateNode P st right h1 = (Inr r, h2)"
  from assms(1) show "\<exists>v. evaluateNode P st (BinaryExpression operator left right) h = (Inr v, h2)
      \<and> v = (if operator = ''&&'' then (if truthy P l then r else l)
                                 else (if truthy P l then l else r))
      \<and> truthy P v = (if operator = ''&&'' then truthy P l \<and> truthy P r
                                          else truthy P l \<or> truthy P r)
      \<and> (\<forall>a b. l = VBool a \<and> r = VBool b \<longrightarrow>
            v = VBool (if operator = ''&&'' then a \<and> b else a \<or> b))"
  proof
    assume op: "operator = ''&&''"
    show ?thesis
      unfolding op using logical_value(1) [OF assms(2) right] by simp
  next
    assume op: "operator = ''||''"
    show ?thesis
      unfolding op using logical_value(2) [OF assms(2) right] by simp
  qed
qed

text \<open>
  The witness runs \<^verbatim>\<open>false && @tick(1)\<close>, where the left operand decides the result
  and \<open>tick\<close> is invoked all the same, and \<^verbatim>\<open>true || @boom()\<close>, which fails with the
  error of \<open>boom\<close>.
\<close>

theorem logical_operators_evaluate_both_witness:
  "(''&&'' = ''&&'' \<or> ''&&'' = ''||'')
 \<and> evaluateNode sample sample_state (Literal (LBool False)) [] = (Inr (VBool False), [])
 \<and> evaluateNode sample sample_state (CallExpression ''tick'' [Literal (LNum (Fin 1))]) [] =
      (Inr (VNum (Fin 1)), [''tick''])
 \<and> evaluateNode sample sample_state
      (BinaryExpression ''&&'' (Literal (LBool False)) (CallExpression ''tick'' [Literal (LNum (Fin 1))])) [] =
      (Inr (VBool False), [''tick''])
 \<and> evaluateNode sample sample_state (CallExpression ''boom'' []) [] =
      (Inl (HostError ''boom''), [''boom''])
 \<and> evaluateNode sample sample_state
      (BinaryExpression ''||'' (Literal (LBool True)) (CallExpression ''boom'' [])) [] =
      (Inl (HostError ''boom''), [''boom''])"
proof -
  have and_op: "''&&'' = ''&&'' \<or> ''&&'' = ''||''" and or_op: "''||'' = ''&&'' \<or> ''||'' = ''||''"
    by simp_all
  have no: "evaluateNode sample sample_state (Literal (LBool False)) [] = (Inr (VBool False), [])"
    and yes: "evaluateNode sample sample_state (Literal (LBool True)) [] = (Inr (VBool True), [])"
    by (simp_all add: comp_defs)
  have tick: "evaluateNode sample sample_state (CallExpression ''tick'' [Literal (LNum (Fin 1))]) [] =
      (Inr (VNum (Fin 1)), [''tick''])"
    by (simp add: comp_defs sample_defs)
  have boom: "evaluateNode sample sample_state (CallExpression ''boom'' []) [] =
      (Inl (HostError ''boom''), [''boom''])"
    by (simp add: comp_defs sample_defs)
  from logical_operators_evaluate_both [OF and_op no, of "CallExpression ''tick'' [Literal (LNum (Fin 1))]"] tick
  have 1: "evaluateNode sample sample_state
      (BinaryExpression ''&&'' (Literal (LBool False)) (CallExpression ''tick'' [Literal (LNum (Fin 1))])) [] =
      (Inr (VBool False), [''tick''])"
    by auto
  from logical_operators_evaluate_both [OF or_op yes, of "CallExpression ''boom'' []"] boom
  have 2: "evaluateNode sample sample_state
      (BinaryExpression ''||'' (Literal (LBool True)) (CallExpression ''boom'' [])) [] =
      (Inl (HostError ''boom''), [''boom''])"
    by auto
  from and_op no tick 1 boom 2 show ?thesis
    by blast
qed

text \<open>
  The claim as worded fails: \<^verbatim>\<open>"a" && "b"\<close> evaluates to the string \<^verbatim>\<open>"b"\<close>, not to the
  boolean \<^verbatim>\<open>true\<close> that the logical AND of the two truthy operands would be.
\<close>

theorem logical_result_not_boolean_counterexample:
  "evaluateNode sample sample_state
     (BinaryExpression ''&&'' (Literal (LStr ''a'')) (Literal (LStr ''b''))) ([] :: string list) =
     (Inr (VStr ''b''), [])
 \<and> evaluateNode sample sample_state
     (BinaryExpression ''&&'' (Literal (LStr ''a'')) (Literal (LStr ''b''))) ([] :: string list) \<noteq>
     (Inr (VBool (truthy sample (VStr ''a'') \<and> truthy sample (VStr ''b''))), [])"
  by (simp add: comp_defs binaryOperator_def)

section \<open>Conditional expressions\<close>

text \<open>
  Claim C3. Once the test has evaluated to a value, a conditional expression is the
  evaluation of the consequent when the value is truthy and of the alternate when it is
  not, started in the host state that the test left (an error of the branch gets the
  prefix of this dispatch). The other branch does not occur in the result. In
  particular, with a falsy test, a call as consequent and a literal as alternate, the
  result is the literal's value and the host state is the one after the test: the
  called function is not invoked.
\<close>

theorem conditional_takes_one_branch:
  assumes "evaluateNode P st test h = (Inr t, h1)"
  shows "(truthy P t \<longrightarrow>
            evaluateNode P st (ConditionalExpression test consequent alternate) h =
              tryCatch (evaluateNode P st consequent) h1)
       \<and> (\<not> truthy P t \<longrightarrow>
            evaluateNode P st (ConditionalExpression test consequent alternate) h =
              tryCatch (evaluateNode P st alternate) h1)
       \<and> (\<not> truthy P t \<longrightarrow>
            evaluateNode P st (ConditionalExpression test (CallExpression callee arguments) (Literal lit)) h =
              (Inr (evaluateLiteral lit), h1))"
  using assms by (simp add: comp_defs)

theorem conditional_takes_one_branch_witness:
  "evaluateNode sample sample_state (Literal (LBool False)) [] = (Inr (VBool False), [])
 \<and> \<not> truthy sample (VBool False)
 \<and> evaluateNode sample sample_state
      (ConditionalExpression (Literal (LBool False)) (CallExpression ''boom'' []) (Literal (LNum (Fin 5)))) [] =
      (Inr (VNum (Fin 5)), [])
 \<and> evaluateNode sample sample_state (Literal (LBool True)) [] = (Inr (VBool True), [])
 \<and> truthy sample (VBool True)
 \<and> evaluateNode sample sample_state
      (ConditionalExpression (Literal (LBool True)) (CallExpression ''tick'' []) (CallExpression ''boom'' [])) [] =
      (Inr VUndef, [''tick''])"
proof -
  have no: "evaluateNode sample sample_state (Literal (LBool False)) [] = (Inr (VBool False), [])"
    and yes: "evaluateNode sample sample_state (Literal (LBool True)) [] = (Inr (VBool True), [])"
    by (simp_all add: comp_defs)
  have falsy: "\<not> truthy sample (VBool False)" and truthy: "truthy sample (VBool True)"
    by simp_all
  have tick: "tryCatch (evaluateNode sample sample_state (CallExpression ''tick'' [])) [] =
      (Inr VUndef, [''tick''])"
    by (simp add: comp_defs sample_defs)
  from conditional_takes_one_branch
    [where callee = "''boom''" and arguments = "[]" and lit = "LNum (Fin 5)",
     OF no, THEN conjunct2, THEN conjunct2] falsy
  have 1: "evaluateNode sample sample_state
      (ConditionalExpression (Literal (LBool False)) (CallExpression ''boom'' []) (Literal (LNum (Fin 5)))) [] =
      (Inr (VNum (Fin 5)), [])"
    by (simp del: evaluateNode.simps)
  from conditional_takes_one_branch
    [where consequent = "CallExpression ''tick'' []" and alternate = "CallExpression ''boom'' []",
     OF yes, THEN conjunct1]
    truthy tick
  have 2: "evaluateNode sample sample_state
      (ConditionalExpression (Literal (LBool True)) (CallExpression ''tick'' []) (CallExpression ''boom'' [])) [] =
      (Inr VUndef, [''tick''])"
    by (simp del: evaluateNode.simps)
  from no yes falsy truthy 1 2 show ?thesis
    by blast
qed


section \<open>Conversions\<close>

lemma toString_primitive:
  "\<not> is_object v \<Longrightarrow> toString P v h = (Inr (primitiveToString P v), h)"
  by (simp add: toString_def toPrimitive_def comp_defs)

lemma getProperty_string: "getProperty P obj (VStr key) = return (getMember P obj key)"
  by (rule ext) (simp add: getProperty_def toString_def toPrimitive_def comp_defs)

lemma getMember_missing:
  assumes "key \<notin> fst ` set own" and "key \<notin> fst ` set inherited"
  shows "getMember P (VObj r own inherited) key = VUndef"
proof -
  from assms have "map_of own key = None" and "map_of inherited key = None"
    by (simp_all add: map_of_eq_None_iff)
  then show ?thesis
    by simp
qed

lemma getMember_inherited:
  assumes "key \<notin> fst ` set own" and "map_of inherited key = Some v"
  shows "getMember P (VObj r own inherited) key = v"
proof -
  from assms(1) have "map_of own key = None"
    by (simp add: map_of_eq_None_iff)
  with assms(2) show ?thesis
    by simp
qed

section \<open>The sample states\<close>

lemma evaluate_without_override:
  "fst (evaluate P \<sigma> ast state None) = evaluateNode P (readState \<sigma> state) (body ast)"
  by (simp add: evaluate_def)

lemma fresh_state_reads:
  "readState (snd fresh_state) (fst fresh_state) =
     \<lparr>context_js = Map.empty, functions_js = Map.empty,
      context_proto = map_of objectMembers, functions_proto = map_of objectMembers\<rparr>"
  by (simp add: fresh_state_def createInterpreterState_def empty_store_def newContext_def
      newFunctions_def newState_def readState_def Let_def)

lemma ticking_state_reads:
  "readState (snd ticking_state) (fst ticking_state) =
     \<lparr>context_js = Map.empty, functions_js = [''tick'' \<mapsto> tick_fn],
      context_proto = map_of objectMembers, functions_proto = map_of objectMembers\<rparr>"
  by (simp add: ticking_state_def setFunction_def fresh_state_def createInterpreterState_def
      empty_store_def newContext_def newFunctions_def newState_def readState_def Let_def)

section \<open>Identifiers\<close>

text \<open>
  An identifier whose name is an own key of the context evaluates to the value stored
  there; one whose name is neither an own key nor inherited fails with the
  undefined-variable error; one whose name is inherited only evaluates to the inherited
  value.
\<close>

lemma evaluateNode_Identifier:
  "evaluateNode P st (Identifier name) h =
     (case context_js st name of
        Some v \<Rightarrow> (Inr v, h)
      | None \<Rightarrow>
          (case context_proto st name of
             Some v \<Rightarrow> (Inr v, h)
           | None \<Rightarrow> (Inl (ExpressionError (''Evaluation error: Undefined variable: '' @ name)), h)))"
  by (simp add: evaluateIdentifier_def comp_defs split: option.splits)

text \<open>
  Claim C5 fails on the code. The claim is that a name absent from the context fails
  with the undefined-variable error. The source tests \<^verbatim>\<open>name in context\<close>, which also
  holds for what the context object inherits: on the state that
  \<^verbatim>\<open>createInterpreterState()\<close> returns, whose context \<^verbatim>\<open>{}\<close> has no key at all, the
  identifier \<^verbatim>\<open>toString\<close> evaluates to the function \<^verbatim>\<open>Object.prototype.toString\<close>, while
  the identifier \<^verbatim>\<open>missing\<close> fails as claimed.
\<close>

theorem identifier_inherited_key:
  "context_js (readState (snd fresh_state) (fst fresh_state)) = Map.empty
 \<and> fst (evaluate sample (snd fresh_state) (Program (Identifier ''toString'')) (fst fresh_state) None) [] =
      (Inr (VFun ''Object.prototype.toString''), [])
 \<and> fst (evaluate sample (snd fresh_state) (Program (Identifier ''missing'')) (fst fresh_state) None) [] =
      (Inl (ExpressionError ''Evaluation error: Undefined variable: missing''), [])"
  by (simp add: evaluate_without_override fresh_state_reads evaluateIdentifier_def comp_defs
      object_defs)

section \<open>Calls\<close>

text \<open>
  A call whose callee is neither registered nor inherited by the function table fails
  with the undefined-function error whatever its arguments are, in the host state it
  started in: no argument is evaluated.
\<close>

lemma call_unknown_function:
  assumes "functions_js st callee = None" and "functions_proto st callee = None"
  shows "evaluateNode P st (CallExpression callee arguments) h =
           (Inl (ExpressionError (''Evaluation error: Undefined function: '' @ callee)), h)"
  using assms by (simp add: tryCatch_def throw_def)

text \<open>
  Claim C10 fails on the code. The claim is that a call whose callee is absent from the
  function table fails with the undefined-function error before any argument is
  evaluated. The source reads \<^verbatim>\<open>functions[name]\<close>, which also finds what the functions
  object inherits: on the state \<^verbatim>\<open>setFunction(createInterpreterState(), "tick", tick)\<close>,
  where \<^verbatim>\<open>toString\<close> is not registered, \<^verbatim>\<open>@toString(@tick(1))\<close> evaluates its argument
  (the log shows the call of \<open>tick\<close>) and returns the string of
  \<^verbatim>\<open>Object.prototype.toString\<close> called without a receiver, while \<^verbatim>\<open>@nope(@tick(1))\<close>
  fails as claimed.
\<close>

theorem call_inherited_callee:
  "functions_js (readState (snd ticking_state) (fst ticking_state)) ''toString'' = None
 \<and> fst (evaluate sample (snd ticking_state)
      (Program (CallExpression ''toString'' [CallExpression ''tick'' [Literal (LNum (Fin 1))]]))
      (fst ticking_state) None) [] =
      (Inr (VStr ''[object Undefined]''), [''tick''])
 \<and> fst (evaluate sample (snd ticking_state)
      (Program (CallExpression ''nope'' [CallExpression ''tick'' [Literal (LNum (Fin 1))]]))
      (fst ticking_state) None) [] =
      (Inl (ExpressionError ''Evaluation error: Undefined function: nope''), [])"
  by (simp add: evaluate_without_override ticking_state_reads comp_defs object_defs sample_def
      sample_call_def tick_fn_def)

section \<open>The operator \<^verbatim>\<open>+\<close>\<close>

text \<open>
  Claim C2, as the code has it. For \<^verbatim>\<open>+\<close>, once both operands have evaluated to
  values: two numbers give their sum; any other pair gives the concatenation of
  \<^verbatim>\<open>String(left)\<close> and \<^verbatim>\<open>String(right)\<close>, converted in this order, when both conversions
  succeed. The conversion of a number, string, boolean, \<^verbatim>\<open>null\<close> or \<^verbatim>\<open>undefined\<close>
  always succeeds. The conversion of an object can throw (a \<^verbatim>\<open>TypeError\<close> when the
  object has no usable \<^verbatim>\<open>toString\<close> or \<^verbatim>\<open>valueOf\<close>, or what its own method throws); then
  the expression fails with that error, which the dispatch throws again.
\<close>

theorem plus_adds_or_concatenates:
  assumes "evaluateNode P st left h = (Inr l, h1)"
    and "evaluateNode P st right h1 = (Inr r, h2)"
  shows "(\<forall>a b. l = VNum a \<and> r = VNum b \<longrightarrow>
            evaluateNode P st (BinaryExpression ''+'' left right) h = (Inr (VNum (num_add P a b)), h2))
       \<and> (\<forall>s h3 t h4. \<not> (is_number l \<and> is_number r)
              \<and> toString P l h2 = (Inr s, h3) \<and> toString P r h3 = (Inr t, h4) \<longrightarrow>
            evaluateNode P st (BinaryExpression ''+'' left right) h = (Inr (VStr (s @ t)), h4))
       \<and> (\<forall>e h3. \<not> (is_number l \<and> is_number r) \<and> toString P l h2 = (Inl e, h3) \<longrightarrow>
            evaluateNode P st (BinaryExpression ''+'' left right) h = (Inl (rethrow e), h3))
       \<and> (\<forall>s h3 e h4. \<not> (is_number l \<and> is_number r)
              \<and> toString P l h2 = (Inr s, h3) \<and> toString P r h3 = (Inl e, h4) \<longrightarrow>
            evaluateNode P st (BinaryExpression ''+'' left right) h = (Inl (rethrow e), h4))
       \<and> (\<forall>v k. \<not> is_object v \<longrightarrow> toString P v k = (Inr (primitiveToString P v), k))"
proof -
  have run: "evaluateNode P st (BinaryExpression ''+'' left right) h =
      tryCatch (binaryOperator P ''+'' l r) h2"
    using assms by (simp add: comp_defs)
  have numbers: "\<forall>a b. l = VNum a \<and> r = VNum b \<longrightarrow>
      evaluateNode P st (BinaryExpression ''+'' left right) h = (Inr (VNum (num_add P a b)), h2)"
    unfolding run by (simp add: binaryOperator_def comp_defs)
  have both: "\<forall>s h3 t h4. \<not> (is_number l \<and> is_number r)
        \<and> toString P l h2 = (Inr s, h3) \<and> toString P r h3 = (Inr t, h4) \<longrightarrow>
      evaluateNode P st (BinaryExpression ''+'' left right) h = (Inr (VStr (s @ t)), h4)"
    unfolding run by (simp add: binaryOperator_def comp_defs)
  have first: "\<forall>e h3. \<not> (is_number l \<and> is_number r) \<and> toString P l h2 = (Inl e, h3) \<longrightarrow>
      evaluateNode P st (BinaryExpression ''+'' left right) h = (Inl (rethrow e), h3)"
    unfolding run by (simp add: binaryOperator_def comp_defs)
  have second: "\<forall>s h3 e h4. \<not> (is_number l \<and> is_number r)
        \<and> toString P l h2 = (Inr s, h3) \<and> toString P r h3 = (Inl e, h4) \<longrightarrow>
      evaluateNode P st (BinaryExpression ''+'' left right) h = (Inl (rethrow e), h4)"
    unfolding run by (simp add: binaryOperator_def comp_defs)
  have primitive: "\<forall>v k. \<not> is_object v \<longrightarrow> toString P v k = (Inr (primitiveToString P v), k)"
    by (simp add: toString_primitive)
  from numbers both first second primitive show ?thesis
    by (intro conjI)
qed

text \<open>
  The witness runs \<^verbatim>\<open>1 + 2\<close>, \<^verbatim>\<open>"a" + 1\<close>, \<^verbatim>\<open>1 + "a"\<close>, \<^verbatim>\<open>data + 1\<close> for the object
  \<^verbatim>\<open>{value: 42}\<close>, and \<^verbatim>\<open>odd + 1\<close> and \<^verbatim>\<open>1 + odd\<close> for the object \<^verbatim>\<open>{toString: 1}\<close>.
\<close>

theorem plus_adds_or_concatenates_witness:
  "evaluateNode sample sample_state (Literal (LStr ''a'')) [] = (Inr (VStr ''a''), [])
 \<and> evaluateNode sample sample_state (Literal (LNum (Fin 1))) [] = (Inr (VNum (Fin 1)), [])
 \<and> evaluateNode sample sample_state (Literal (LNum (Fin 2))) [] = (Inr (VNum (Fin 2)), [])
 \<and> evaluateNode sample sample_state
      (BinaryExpression ''+'' (Literal (LNum (Fin 1))) (Literal (LNum (Fin 2)))) [] =
      (Inr (VNum (Fin 3)), [])
 \<and> toString sample (VStr ''a'') [] = (Inr ''a'', [])
 \<and> toString sample (VNum (Fin 1)) [] = (Inr ''1'', [])
 \<and> evaluateNode sample sample_state
      (BinaryExpression ''+'' (Literal (LStr ''a'')) (Literal (LNum (Fin 1)))) [] =
      (Inr (VStr ''a1''), [])
 \<and> evaluateNode sample sample_state
      (BinaryExpression ''+'' (Literal (LNum (Fin 1))) (Literal (LStr ''a''))) [] =
      (Inr (VStr ''1a''), [])
 \<and> toString sample (VObj 1 [(''value'', VNum (Fin 42))] objectMembers) [] = (Inr ''[object Object]'', [])
 \<and> evaluateNode sample sample_state
      (BinaryExpression ''+'' (Identifier ''data'') (Literal (LNum (Fin 1)))) [] =
      (Inr (VStr ''[object Object]1''), [])
 \<and> toString sample (VObj 2 [(''toString'', VNum (Fin 1))] objectMembers) [] = (Inl TypeError, [])
 \<and> evaluateNode sample sample_state
      (BinaryExpression ''+'' (Identifier ''odd'') (Literal (LNum (Fin 1)))) [] =
      (Inl TypeError, [])
 \<and> evaluateNode sample sample_state
      (BinaryExpression ''+'' (Literal (LNum (Fin 1))) (Identifier ''odd'')) [] =
      (Inl TypeError, [])"
proof -
  have a: "evaluateNode sample sample_state (Literal (LStr ''a'')) [] = (Inr (VStr ''a''), [])"
    and one: "evaluateNode sample sample_state (Literal (LNum (Fin 1))) [] = (Inr (VNum (Fin 1)), [])"
    and two: "evaluateNode sample sample_state (Literal (LNum (Fin 2))) [] = (Inr (VNum (Fin 2)), [])"
    by (simp_all add: comp_defs)
  have data: "evaluateNode sample sample_state (Identifier ''data'') [] =
      (Inr (VObj 1 [(''value'', VNum (Fin 42))] objectMembers), [])"
    and odd: "evaluateNode sample sample_state (Identifier ''odd'') [] =
      (Inr (VObj 2 [(''toString'', VNum (Fin 1))] objectMembers), [])"
    by (simp_all add: comp_defs evaluateIdentifier_def sample_state_def)
  have sa: "toString sample (VStr ''a'') [] = (Inr ''a'', [])"
    and s1: "toString sample (VNum (Fin 1)) [] = (Inr ''1'', [])"
    by (simp_all add: conversion_defs comp_defs sample_def)
  have sdata: "toString sample (VObj 1 [(''value'', VNum (Fin 42))] objectMembers) [] =
      (Inr ''[object Object]'', [])"
    by (simp add: conversion_defs comp_defs sample_def sample_call_def object_defs)
  have sodd: "toString sample (VObj 2 [(''toString'', VNum (Fin 1))] objectMembers) [] =
      (Inl TypeError, [])"
    by (simp add: conversion_defs comp_defs sample_def sample_call_def object_defs)
  have 1: "evaluateNode sample sample_state
      (BinaryExpression ''+'' (Literal (LNum (Fin 1))) (Literal (LNum (Fin 2)))) [] =
      (Inr (VNum (Fin 3)), [])"
    using plus_adds_or_concatenates [OF one two, THEN conjunct1]
    by (simp add: sample_def del: evaluateNode.simps)
  have 2: "evaluateNode sample sample_state
      (BinaryExpression ''+'' (Literal (LStr ''a'')) (Literal (LNum (Fin 1)))) [] =
      (Inr (VStr ''a1''), [])"
    using plus_adds_or_concatenates [OF a one, THEN conjunct2, THEN conjunct1] sa s1
    by (simp del: evaluateNode.simps)
  have 3: "evaluateNode sample sample_state
      (BinaryExpression ''+'' (Literal (LNum (Fin 1))) (Literal (LStr ''a''))) [] =
      (Inr (VStr ''1a''), [])"
    using plus_adds_or_concatenates [OF one a, THEN conjunct2, THEN conjunct1] sa s1
    by (simp del: evaluateNode.simps)
  have 4: "evaluateNode sample sample_state
      (BinaryExpression ''+'' (Identifier ''data'') (Literal (LNum (Fin 1)))) [] =
      (Inr (VStr ''[object Object]1''), [])"
    using plus_adds_or_concatenates [OF data one, THEN conjunct2, THEN conjunct1] sdata s1
    by (simp del: evaluateNode.simps)
  have 5: "evaluateNode sample sample_state
      (BinaryExpression ''+'' (Identifier ''odd'') (Literal (LNum (Fin 1)))) [] =
      (Inl TypeError, [])"
    using plus_adds_or_concatenates [OF odd one, THEN conjunct2, THEN conjunct2, THEN conjunct1] sodd
    by (simp del: evaluateNode.simps)
  have 6: "evaluateNode sample sample_state
      (BinaryExpression ''+'' (Literal (LNum (Fin 1))) (Identifier ''odd'')) [] =
      (Inl TypeError, [])"
    using plus_adds_or_concatenates
      [OF one odd, THEN conjunct2, THEN conjunct2, THEN conjunct2, THEN conjunct1] s1 sodd
    by (simp del: evaluateNode.simps)
  from a one two sa s1 sdata sodd 1 2 3 4 5 6 show ?thesis
    by (intro conjI)
qed

text \<open>
  The claim as worded fails: for the object \<^verbatim>\<open>{toString: 1}\<close> in the context variable
  \<^verbatim>\<open>odd\<close>, the operator raises an error in \<^verbatim>\<open>odd + 1\<close>: the conversion of the object to
  a string throws a \<^verbatim>\<open>TypeError\<close>.
\<close>

theorem plus_conversion_error_counterexample:
  "evaluateNode sample sample_state (Identifier ''odd'') ([] :: string list) =
     (Inr (VObj 2 [(''toString'', VNum (Fin 1))] objectMembers), [])
 \<and> evaluateNode sample sample_state (Literal (LNum (Fin 1))) ([] :: string list) =
     (Inr (VNum (Fin 1)), [])
 \<and> evaluateNode sample sample_state
     (BinaryExpression ''+'' (Identifier ''odd'') (Literal (LNum (Fin 1)))) ([] :: string list) =
     (Inl TypeError, [])"
  by (simp add: comp_defs evaluateIdentifier_def sample_state_def binaryOperator_def
      conversion_defs sample_def sample_call_def object_defs)

section \<open>Member expressions\<close>

text \<open>
  Claim C4, as the code has it. The object of a member expression is evaluated first.
  If its value is \<^verbatim>\<open>null\<close> or \<^verbatim>\<open>undefined\<close> the expression fails with the
  null-property-access error (message \<^verbatim>\<open>Cannot access property of null or undefined\<close>,
  prefixed once by the dispatch of the node), in the host state that the object left,
  so the property is not evaluated. Otherwise the key is the name of the property
  identifier when the expression is not computed; when it is computed, the property
  expression is evaluated after the object and its value is converted to a string key,
  and a conversion that throws fails the expression with its error. The lookup is a
  property access: on an object, a key that is an own property gives the value stored
  there, a key that is only inherited through the prototype chain (such as
  \<^verbatim>\<open>toString\<close> on an object literal) gives the inherited value, and only a key that is
  neither gives \<^verbatim>\<open>undefined\<close>, not an error.
\<close>

theorem member_expression_access:
  assumes "evaluateNode P st object h = (Inr obj, h1)"
  shows "(obj = VNull \<or> obj = VUndef \<longrightarrow>
            evaluateNode P st (MemberExpression object property computed) h =
              (Inl (ExpressionError ''Evaluation error: Cannot access property of null or undefined''), h1))
       \<and> (obj \<noteq> VNull \<and> obj \<noteq> VUndef \<longrightarrow>
            evaluateNode P st (MemberExpression object (Identifier name) False) h =
              (Inr (getMember P obj name), h1))
       \<and> (\<forall>key h2 s h3. obj \<noteq> VNull \<and> obj \<noteq> VUndef
              \<and> evaluateNode P st property h1 = (Inr key, h2) \<and> toString P key h2 = (Inr s, h3) \<longrightarrow>
            evaluateNode P st (MemberExpression object property True) h =
              (Inr (getMember P obj s), h3))
       \<and> (\<forall>key h2 e h3. obj \<noteq> VNull \<and> obj \<noteq> VUndef
              \<and> evaluateNode P st property h1 = (Inr key, h2) \<and> toString P key h2 = (Inl e, h3) \<longrightarrow>
            evaluateNode P st (MemberExpression object property True) h = (Inl (rethrow e), h3))
       \<and> (\<forall>r own inherited s. s \<notin> fst ` set own \<and> s \<notin> fst ` set inherited \<longrightarrow>
            getMember P (VObj r own inherited) s = VUndef)
       \<and> (\<forall>r own inherited s v. map_of own s = Some v \<longrightarrow>
            getMember P (VObj r own inherited) s = v)
       \<and> (\<forall>r own inherited s v. s \<notin> fst ` set own \<and> map_of inherited s = Some v \<longrightarrow>
            getMember P (VObj r own inherited) s = v)"
proof -
  have null: "obj = VNull \<or> obj = VUndef \<longrightarrow>
      evaluateNode P st (MemberExpression object property computed) h =
        (Inl (ExpressionError ''Evaluation error: Cannot access property of null or undefined''), h1)"
    using assms by (auto simp add: comp_defs)
  have static: "obj \<noteq> VNull \<and> obj \<noteq> VUndef \<longrightarrow>
      evaluateNode P st (MemberExpression object (Identifier name) False) h =
        (Inr (getMember P obj name), h1)"
    using assms by (simp add: comp_defs getProperty_def toString_def toPrimitive_def)
  have dynamic: "\<forall>key h2 s h3. obj \<noteq> VNull \<and> obj \<noteq> VUndef
        \<and> evaluateNode P st property h1 = (Inr key, h2) \<and> toString P key h2 = (Inr s, h3) \<longrightarrow>
      evaluateNode P st (MemberExpression object property True) h =
        (Inr (getMember P obj s), h3)"
    using assms by (simp add: comp_defs getProperty_def)
  have failing: "\<forall>key h2 e h3. obj \<noteq> VNull \<and> obj \<noteq> VUndef
        \<and> evaluateNode P st property h1 = (Inr key, h2) \<and> toString P key h2 = (Inl e, h3) \<longrightarrow>
      evaluateNode P st (MemberExpression object property True) h = (Inl (rethrow e), h3)"
    using assms by (simp add: comp_defs getProperty_def)
  have missing: "\<forall>r own inherited s. s \<notin> fst ` set own \<and> s \<notin> fst ` set inherited \<longrightarrow>
      getMember P (VObj r own inherited) s = VUndef"
    by (intro allI impI) (rule getMember_missing, simp_all)
  have own: "\<forall>r own inherited s v. map_of own s = Some v \<longrightarrow>
      getMember P (VObj r own inherited) s = v"
    by simp
  have inherited: "\<forall>r own inherited s v. s \<notin> fst ` set own \<and> map_of inherited s = Some v \<longrightarrow>
      getMember P (VObj r own inherited) s = v"
    by (intro allI impI) (rule getMember_inherited, simp_all)
  from null static dynamic failing missing own inherited show ?thesis
    by (intro conjI)
qed

text \<open>
  The witness is the example of the specification: with the context
  \<^verbatim>\<open>{data: {value: 42}, nothing: null, odd: {toString: 1}}\<close>, \<^verbatim>\<open>data.value\<close> and
  \<^verbatim>\<open>data["value"]\<close> are 42, \<^verbatim>\<open>data.other\<close> is \<^verbatim>\<open>undefined\<close>, \<^verbatim>\<open>nothing[@tick()]\<close> fails
  without a call of \<open>tick\<close>, and \<^verbatim>\<open>data[odd]\<close> fails in the conversion of the key.
\<close>

theorem member_expression_access_witness:
  "evaluateNode sample sample_state (Identifier ''data'') [] =
      (Inr (VObj 1 [(''value'', VNum (Fin 42))] objectMembers), [])
 \<and> evaluateNode sample sample_state
      (MemberExpression (Identifier ''data'') (Identifier ''value'') False) [] =
      (Inr (VNum (Fin 42)), [])
 \<and> evaluateNode sample sample_state (Literal (LStr ''value'')) [] = (Inr (VStr ''value''), [])
 \<and> toString sample (VStr ''value'') [] = (Inr ''value'', [])
 \<and> evaluateNode sample sample_state
      (MemberExpression (Identifier ''data'') (Literal (LStr ''value'')) True) [] =
      (Inr (VNum (Fin 42)), [])
 \<and> ''other'' \<notin> fst ` set [(''value'', VNum (Fin 42) :: snum val)]
 \<and> ''other'' \<notin> fst ` set (objectMembers :: (string \<times> snum val) list)
 \<and> evaluateNode sample sample_state
      (MemberExpression (Identifier ''data'') (Identifier ''other'') False) [] =
      (Inr VUndef, [])
 \<and> evaluateNode sample sample_state (Identifier ''odd'') [] =
      (Inr (VObj 2 [(''toString'', VNum (Fin 1))] objectMembers), [])
 \<and> toString sample (VObj 2 [(''toString'', VNum (Fin 1))] objectMembers) [] = (Inl TypeError, [])
 \<and> evaluateNode sample sample_state
      (MemberExpression (Identifier ''data'') (Identifier ''odd'') True) [] =
      (Inl TypeError, [])
 \<and> evaluateNode sample sample_state (Identifier ''nothing'') [] = (Inr VNull, [])
 \<and> evaluateNode sample sample_state
      (MemberExpression (Identifier ''nothing'') (CallExpression ''tick'' []) True) [] =
      (Inl (ExpressionError ''Evaluation error: Cannot access property of null or undefined''), [])"
proof -
  have data: "evaluateNode sample sample_state (Identifier ''data'') [] =
      (Inr (VObj 1 [(''value'', VNum (Fin 42))] objectMembers), [])"
    and null_obj: "evaluateNode sample sample_state (Identifier ''nothing'') [] = (Inr VNull, [])"
    and odd: "evaluateNode sample sample_state (Identifier ''odd'') [] =
      (Inr (VObj 2 [(''toString'', VNum (Fin 1))] objectMembers), [])"
    and key: "evaluateNode sample sample_state (Literal (LStr ''value'')) [] = (Inr (VStr ''value''), [])"
    by (simp_all add: comp_defs evaluateIdentifier_def sample_state_def)
  have skey: "toString sample (VStr ''value'') [] = (Inr ''value'', [])"
    by (simp add: conversion_defs comp_defs)
  have sodd: "toString sample (VObj 2 [(''toString'', VNum (Fin 1))] objectMembers) [] =
      (Inl TypeError, [])"
    by (simp add: conversion_defs comp_defs sample_def sample_call_def object_defs)
  have has: "map_of [(''value'', VNum (Fin 42) :: snum val)] ''value'' = Some (VNum (Fin 42))"
    and hasnt: "''other'' \<notin> fst ` set [(''value'', VNum (Fin 42) :: snum val)]"
    and inherits_not: "''other'' \<notin> fst ` set (objectMembers :: (string \<times> snum val) list)"
    by (simp_all add: object_defs)
  note on_data = member_expression_access [OF data]
  note on_nothing = member_expression_access
    [where property = "CallExpression ''tick'' []" and computed = True, OF null_obj]
  have 1: "evaluateNode sample sample_state
      (MemberExpression (Identifier ''data'') (Identifier ''value'') False) [] =
      (Inr (VNum (Fin 42)), [])"
    using on_data [where name = "''value''", THEN conjunct2, THEN conjunct1]
    by (simp del: evaluateNode.simps)
  have 2: "evaluateNode sample sample_state
      (MemberExpression (Identifier ''data'') (Literal (LStr ''value'')) True) [] =
      (Inr (VNum (Fin 42)), [])"
    using on_data [where property = "Literal (LStr ''value'')",
        THEN conjunct2, THEN conjunct2, THEN conjunct1] key skey
    by (simp del: evaluateNode.simps)
  have 3: "evaluateNode sample sample_state
      (MemberExpression (Identifier ''data'') (Identifier ''other'') False) [] =
      (Inr VUndef, [])"
    using on_data [where name = "''other''", THEN conjunct2, THEN conjunct1]
      on_data [THEN conjunct2, THEN conjunct2, THEN conjunct2, THEN conjunct2, THEN conjunct1]
      hasnt inherits_not
    by (simp del: evaluateNode.simps getMember.simps)
  have 4: "evaluateNode sample sample_state
      (MemberExpression (Identifier ''data'') (Identifier ''odd'') True) [] =
      (Inl TypeError, [])"
    using on_data [where property = "Identifier ''odd''",
        THEN conjunct2, THEN conjunct2, THEN conjunct2, THEN conjunct1] odd sodd
    by (simp del: evaluateNode.simps)
  have 5: "evaluateNode sample sample_state
      (MemberExpression (Identifier ''nothing'') (CallExpression ''tick'' []) True) [] =
      (Inl (ExpressionError ''Evaluation error: Cannot access property of null or undefined''), [])"
    using on_nothing [THEN conjunct1]
    by (simp del: evaluateNode.simps)
  from data key skey hasnt inherits_not odd sodd null_obj 1 2 3 4 5 show ?thesis
    by (intro conjI)
qed

text \<open>
  The claim as worded fails in two ways. The object \<^verbatim>\<open>{value: 42}\<close> has no key
  \<^verbatim>\<open>toString\<close>, and \<^verbatim>\<open>data.toString\<close> is not \<^verbatim>\<open>undefined\<close> but the function that the
  object inherits. And on the same object, which is not \<^verbatim>\<open>null\<close>, the computed access
  \<^verbatim>\<open>data[odd]\<close> is an error: the key \<^verbatim>\<open>{toString: 1}\<close> cannot be converted.
\<close>

theorem member_inherited_key_counterexample:
  "evaluateNode sample sample_state (Identifier ''data'') ([] :: string list) =
     (Inr (VObj 1 [(''value'', VNum (Fin 42))] objectMembers), [])
 \<and> ''toString'' \<notin> fst ` set [(''value'', VNum (Fin 42) :: snum val)]
 \<and> evaluateNode sample sample_state
     (MemberExpression (Identifier ''data'') (Identifier ''toString'') False) ([] :: string list) =
     (Inr (VFun ''Object.prototype.toString''), [])
 \<and> evaluateNode sample sample_state
     (MemberExpression (Identifier ''data'') (Identifier ''toString'') False) ([] :: string list) \<noteq>
     (Inr VUndef, [])
 \<and> evaluateNode sample sample_state
     (MemberExpression (Identifier ''data'') (Identifier ''odd'') True) ([] :: string list) =
     (Inl TypeError, [])"
  by (simp add: comp_defs evaluateIdentifier_def sample_state_def conversion_defs sample_def
      sample_call_def object_defs)

section \<open>Unary expressions\<close>

lemma unary_argument_error:
  assumes "evaluateNode P st argument h = (Inl e, h1)"
  shows "evaluateNode P st (UnaryExpression operator prefix argument) h = (Inl (rethrow e), h1)"
  using assms by (simp add: comp_defs)

text \<open>
  Claim C9, as the code has it. The argument of a unary expression is evaluated first,
  whatever the operator and the prefix flag are; if it fails, the expression fails with
  the argument's error. Once the argument has evaluated to a value: prefix \<^verbatim>\<open>!\<close>
  returns the negation of its truthiness; prefix \<^verbatim>\<open>-\<close> returns the arithmetic negation
  of a number; on any other value it converts the value to a string for the message
  and, when that conversion succeeds, fails with the non-numeric-negation error
  (message \<^verbatim>\<open>Cannot apply unary - to non-number: value\<close>), while a conversion that
  throws (a \<^verbatim>\<open>TypeError\<close> for an object without a usable \<^verbatim>\<open>toString\<close> or \<^verbatim>\<open>valueOf\<close>)
  fails the expression with its error instead; an expression that is not prefix fails
  with the unsupported-postfix error (message
  \<^verbatim>\<open>Postfix operators are not supported: operator\<close>). Each message is prefixed once by
  the dispatch of the node.
\<close>

theorem unary_expression_semantics:
  assumes "evaluateNode P st argument h = (Inr arg, h1)"
  shows "evaluateNode P st (UnaryExpression ''!'' True argument) h = (Inr (VBool (\<not> truthy P arg)), h1)
       \<and> (\<forall>a. arg = VNum a \<longrightarrow>
            evaluateNode P st (UnaryExpression ''-'' True argument) h = (Inr (VNum (num_neg P a)), h1))
       \<and> (\<forall>shown h2. \<not> is_number arg \<and> toString P arg h1 = (Inr shown, h2) \<longrightarrow>
            evaluateNode P st (UnaryExpression ''-'' True argument) h =
              (Inl (ExpressionError (''Evaluation error: Cannot apply unary - to non-number: '' @ shown)), h2))
       \<and> (\<forall>e h2. \<not> is_number arg \<and> toString P arg h1 = (Inl e, h2) \<longrightarrow>
            evaluateNode P st (UnaryExpression ''-'' True argument) h = (Inl (rethrow e), h2))
       \<and> (\<forall>v k. \<not> is_object v \<longrightarrow> toString P v k = (Inr (primitiveToString P v), k))
       \<and> evaluateNode P st (UnaryExpression operator False argument) h =
            (Inl (ExpressionError (''Evaluation error: Postfix operators are not supported: '' @ operator)), h1)
       \<and> (\<forall>failing e k k'. evaluateNode P st failing k = (Inl e, k') \<longrightarrow>
            evaluateNode P st (UnaryExpression operator prefix failing) k = (Inl (rethrow e), k'))"
proof -
  have negation: "evaluateNode P st (UnaryExpression ''!'' True argument) h =
      (Inr (VBool (\<not> truthy P arg)), h1)"
    using assms by (simp add: comp_defs unaryOperator_def)
  have minus: "\<forall>a. arg = VNum a \<longrightarrow>
      evaluateNode P st (UnaryExpression ''-'' True argument) h = (Inr (VNum (num_neg P a)), h1)"
    using assms by (simp add: comp_defs unaryOperator_def)
  have non_number: "\<forall>shown h2. \<not> is_number arg \<and> toString P arg h1 = (Inr shown, h2) \<longrightarrow>
      evaluateNode P st (UnaryExpression ''-'' True argument) h =
        (Inl (ExpressionError (''Evaluation error: Cannot apply unary - to non-number: '' @ shown)), h2)"
    using assms by (simp add: comp_defs unaryOperator_def)
  have conversion: "\<forall>e h2. \<not> is_number arg \<and> toString P arg h1 = (Inl e, h2) \<longrightarrow>
      evaluateNode P st (UnaryExpression ''-'' True argument) h = (Inl (rethrow e), h2)"
    using assms by (simp add: comp_defs unaryOperator_def)
  have primitive: "\<forall>v k. \<not> is_object v \<longrightarrow> toString P v k = (Inr (primitiveToString P v), k)"
    by (simp add: toString_primitive)
  have postfix: "evaluateNode P st (UnaryExpression operator False argument) h =
      (Inl (ExpressionError (''Evaluation error: Postfix operators are not supported: '' @ operator)), h1)"
    using assms by (simp add: comp_defs unaryOperator_def)
  have on_error: "\<forall>failing e k k'. evaluateNode P st failing k = (Inl e, k') \<longrightarrow>
      evaluateNode P st (UnaryExpression operator prefix failing) k = (Inl (rethrow e), k')"
    by (intro allI impI) (rule unary_argument_error)
  from negation minus non_number conversion primitive postfix on_error show ?thesis
    by (intro conjI)
qed

theorem unary_expression_semantics_witness:
  "evaluateNode sample sample_state (Literal (LNum (Fin 3))) [] = (Inr (VNum (Fin 3)), [])
 \<and> evaluateNode sample sample_state (UnaryExpression ''!'' True (Literal (LNum (Fin 3)))) [] =
      (Inr (VBool False), [])
 \<and> evaluateNode sample sample_state (UnaryExpression ''-'' True (Literal (LNum (Fin 3)))) [] =
      (Inr (VNum (Fin (- 3))), [])
 \<and> evaluateNode sample sample_state (UnaryExpression ''-'' False (Literal (LNum (Fin 3)))) [] =
      (Inl (ExpressionError ''Evaluation error: Postfix operators are not supported: -''), [])
 \<and> evaluateNode sample sample_state (Literal (LStr ''a'')) [] = (Inr (VStr ''a''), [])
 \<and> \<not> is_number (VStr ''a'' :: snum val)
 \<and> toString sample (VStr ''a'') [] = (Inr ''a'', [])
 \<and> evaluateNode sample sample_state (UnaryExpression ''-'' True (Literal (LStr ''a''))) [] =
      (Inl (ExpressionError ''Evaluation error: Cannot apply unary - to non-number: a''), [])
 \<and> evaluateNode sample sample_state (Identifier ''odd'') [] =
      (Inr (VObj 2 [(''toString'', VNum (Fin 1))] objectMembers), [])
 \<and> toString sample (VObj 2 [(''toString'', VNum (Fin 1))] objectMembers) [] = (Inl TypeError, [])
 \<and> evaluateNode sample sample_state (UnaryExpression ''-'' True (Identifier ''odd'')) [] =
      (Inl TypeError, [])
 \<and> evaluateNode sample sample_state (CallExpression ''boom'' []) [] =
      (Inl (HostError ''boom''), [''boom''])
 \<and> evaluateNode sample sample_state (UnaryExpression ''-'' False (CallExpression ''boom'' [])) [] =
      (Inl (HostError ''boom''), [''boom''])"
proof -
  have three: "evaluateNode sample sample_state (Literal (LNum (Fin 3))) [] = (Inr (VNum (Fin 3)), [])"
    and a: "evaluateNode sample sample_state (Literal (LStr ''a'')) [] = (Inr (VStr ''a''), [])"
    by (simp_all add: comp_defs)
  have odd: "evaluateNode sample sample_state (Identifier ''odd'') [] =
      (Inr (VObj 2 [(''toString'', VNum (Fin 1))] objectMembers), [])"
    by (simp add: comp_defs evaluateIdentifier_def sample_state_def)
  have boom: "evaluateNode sample sample_state (CallExpression ''boom'' []) [] =
      (Inl (HostError ''boom''), [''boom''])"
    by (simp add: comp_defs sample_state_def boom_fn_def)
  have nonnum: "\<not> is_number (VStr ''a'' :: snum val)"
    by simp
  have sa: "toString sample (VStr ''a'') [] = (Inr ''a'', [])"
    by (simp add: conversion_defs comp_defs)
  have sodd: "toString sample (VObj 2 [(''toString'', VNum (Fin 1))] objectMembers) [] =
      (Inl TypeError, [])"
    by (simp add: conversion_defs comp_defs sample_def sample_call_def object_defs)
  note on_three = unary_expression_semantics [where operator = "''-''" and prefix = False, OF three]
  note on_a = unary_expression_semantics [where operator = "''-''" and prefix = False, OF a]
  note on_odd = unary_expression_semantics [where operator = "''-''" and prefix = False, OF odd]
  have 1: "evaluateNode sample sample_state (UnaryExpression ''!'' True (Literal (LNum (Fin 3)))) [] =
      (Inr (VBool False), [])"
    using on_three [THEN conjunct1] by (simp add: sample_def del: evaluateNode.simps)
  have 2: "evaluateNode sample sample_state (UnaryExpression ''-'' True (Literal (LNum (Fin 3)))) [] =
      (Inr (VNum (Fin (- 3))), [])"
    using on_three [THEN conjunct2, THEN conjunct1] by (simp add: sample_def del: evaluateNode.simps)
  have 3: "evaluateNode sample sample_state (UnaryExpression ''-'' False (Literal (LNum (Fin 3)))) [] =
      (Inl (ExpressionError ''Evaluation error: Postfix operators are not supported: -''), [])"
    using on_three [THEN conjunct2, THEN conjunct2, THEN conjunct2, THEN conjunct2, THEN conjunct2,
        THEN conjunct1]
    by (simp del: evaluateNode.simps)
  have 4: "evaluateNode sample sample_state (UnaryExpression ''-'' True (Literal (LStr ''a''))) [] =
      (Inl (ExpressionError ''Evaluation error: Cannot apply unary - to non-number: a''), [])"
    using on_a [THEN conjunct2, THEN conjunct2, THEN conjunct1] sa
    by (simp del: evaluateNode.simps)
  have 5: "evaluateNode sample sample_state (UnaryExpression ''-'' True (Identifier ''odd'')) [] =
      (Inl TypeError, [])"
    using on_odd [THEN conjunct2, THEN conjunct2, THEN conjunct2, THEN conjunct1] sodd
    by (simp del: evaluateNode.simps)
  have 6: "evaluateNode sample sample_state (UnaryExpression ''-'' False (CallExpression ''boom'' [])) [] =
      (Inl (HostError ''boom''), [''boom''])"
    using on_three [THEN conjunct2, THEN conjunct2, THEN conjunct2, THEN conjunct2, THEN conjunct2,
        THEN conjunct2, THEN spec, THEN spec, THEN spec, THEN spec, THEN mp, OF boom]
    by simp
  from three a nonnum sa odd sodd boom 1 2 3 4 5 6 show ?thesis
    by (intro conjI)
qed

text \<open>
  The claim as worded fails: the postfix expression on the undefined variable
  \<^verbatim>\<open>missing\<close> fails with the undefined-variable error of its argument, not with the
  unsupported-postfix error.
\<close>

theorem postfix_argument_error_counterexample:
  "evaluateNode sample sample_state (UnaryExpression ''!'' False (Identifier ''missing'')) ([] :: string list) =
     (Inl (ExpressionError ''Evaluation error: Evaluation error: Undefined variable: missing''), [])
 \<and> evaluateNode sample sample_state (UnaryExpression ''!'' False (Identifier ''missing'')) ([] :: string list) \<noteq>
     (Inl (ExpressionError ''Evaluation error: Postfix operators are not supported: !''), [])"
  by (simp add: comp_defs evaluateIdentifier_def sample_state_def object_defs)

section \<open>Error propagation\<close>




























end
